theory Spec2Isabelle
  imports Complex_Main "HOL-Library.AList"
begin

section \<open>Constants (src/src/utils/constants.js)\<close>

text \<open>
  JavaScript numbers are modelled as \<^typ>\<open>real\<close> (positions, speeds, timers): IEEE-754
  rounding, infinities and NaN are not part of the model. Counts and indices are
  \<^typ>\<open>nat\<close> or \<^typ>\<open>int\<close>.
\<close>

datatype faction = Rock | Paper | Scissors

datatype game_state = MENU | LOBBY | PLACEMENT | PLAYING | ENDED

datatype powerup_type =
  SPEED_BOOST | INVINCIBILITY | REINFORCEMENT | MAGNET_AURA
  | SPLIT_FORMATION | CLONE_LEADER | REVERSE_CONTROL

definition ARENA_WIDTH :: real where "ARENA_WIDTH = 40"
definition ARENA_HEIGHT :: real where "ARENA_HEIGHT = 24"
definition SOLDIERS_PER_ARMY :: nat where "SOLDIERS_PER_ARMY = 5"
definition SOLDIER_BASE_SPEED :: real where "SOLDIER_BASE_SPEED = 5"
definition SOLDIER_SIZE :: real where "SOLDIER_SIZE = 45 / 100"
definition LEADER_SIZE :: real where "LEADER_SIZE = 65 / 100"
definition SOLDIER_COLLISION_RADIUS :: real where "SOLDIER_COLLISION_RADIUS = 1 / 2"
definition SPEED_PENALTY_PER_SOLDIER :: real where "SPEED_PENALTY_PER_SOLDIER = 12 / 1000"
definition MIN_SPEED_MULTIPLIER :: real where "MIN_SPEED_MULTIPLIER = 75 / 100"
definition FOLLOW_DISTANCE :: real where "FOLLOW_DISTANCE = 1"
definition FOLLOW_SMOOTHING :: real where "FOLLOW_SMOOTHING = 15 / 100"

text \<open>The string behind each member of \<open>SOLDIER_TYPES\<close>.\<close>

fun type_name :: "faction \<Rightarrow> string" where
  "type_name Rock = ''rock''"
| "type_name Paper = ''paper''"
| "type_name Scissors = ''scissors''"

text \<open>\<open>COLORS[type].main\<close> and \<open>COLORS[type].light\<close>.\<close>

fun COLORS_main :: "faction \<Rightarrow> nat" where
  "COLORS_main Rock = 0x8B7355"
| "COLORS_main Paper = 0xFFFAE6"
| "COLORS_main Scissors = 0xC0C0C0"

fun COLORS_light :: "faction \<Rightarrow> nat" where
  "COLORS_light Rock = 0xB09979"
| "COLORS_light Paper = 0xFFFFFF"
| "COLORS_light Scissors = 0xE8E8E8"

text \<open>\<open>POWERUP_CONFIG.reinforcement.soldiersToRestore\<close> and the durations.\<close>

definition soldiersToRestore :: int where "soldiersToRestore = 2"

fun config_duration :: "powerup_type \<Rightarrow> real" where
  "config_duration SPEED_BOOST = 5"
| "config_duration INVINCIBILITY = 4"
| "config_duration REINFORCEMENT = 0"
| "config_duration MAGNET_AURA = 4"
| "config_duration SPLIT_FORMATION = 2"
| "config_duration CLONE_LEADER = 6"
| "config_duration REVERSE_CONTROL = 2"

definition speed_boost_multiplier :: real where "speed_boost_multiplier = 16 / 10"

section \<open>Soldier (src/src/game/Soldier.js)\<close>

text \<open>
  A soldier object: the fields the simulation reads and writes, and of the mesh its
  position, its rotation about the vertical axis, its scale, and the kind and colour of
  the model that \<open>createTypeModel\<close> builds. \<open>leaderRing\<close> holds the colour of the ring
  that only a soldier constructed as a leader owns.
\<close>

record soldier =
  soldier_id :: string
  soldier_type :: faction
  isLeader :: bool
  isConverting :: bool
  isDragging :: bool
  pos_x :: real
  pos_y :: real
  pos_z :: real
  rot_y :: real
  mesh_scale :: real
  model_kind :: faction
  model_color :: nat
  leaderRing :: "nat option"

text \<open>
  The constructor. Every call of it in Army passes a non-empty id, so the fallback
  \<open>id || Math.random()...\<close> is not taken there.
\<close>

definition new_Soldier :: "faction \<Rightarrow> bool \<Rightarrow> string \<Rightarrow> soldier" where
  "new_Soldier t l i =
     \<lparr> soldier_id = i, soldier_type = t, isLeader = l, isConverting = False,
       isDragging = False, pos_x = 0, pos_y = 0, pos_z = 0, rot_y = 0, mesh_scale = 1,
       model_kind = t,
       model_color = (if l then COLORS_light t else COLORS_main t),
       leaderRing = (if l then Some (COLORS_light t) else None) \<rparr>"

definition setPosition :: "real \<Rightarrow> real \<Rightarrow> real \<Rightarrow> soldier \<Rightarrow> soldier" where
  "setPosition x y z s = s\<lparr>pos_x := x, pos_y := y, pos_z := z\<rparr>"

text \<open>\<open>Soldier.changeType\<close>: the type tag, then the model rebuilt for the new type.\<close>

definition changeType :: "faction \<Rightarrow> soldier \<Rightarrow> soldier" where
  "changeType newType s =
     s\<lparr> soldier_type := newType,
        model_kind := newType,
        model_color := (if isLeader s then COLORS_light newType else COLORS_main newType),
        leaderRing := (case leaderRing s of None \<Rightarrow> None
                        | Some _ \<Rightarrow> Some (COLORS_light newType)) \<rparr>"

section \<open>Rock-paper-scissors dominance (Game.getRPSWinner)\<close>

definition getRPSWinner :: "faction \<Rightarrow> faction \<Rightarrow> faction option" where
  "getRPSWinner type1 type2 =
     (if type1 = type2 then None
      else if type1 = Rock \<and> type2 = Scissors then Some type1
      else if type2 = Rock \<and> type1 = Scissors then Some type2
      else if type1 = Scissors \<and> type2 = Paper then Some type1
      else if type2 = Scissors \<and> type1 = Paper then Some type2
      else if type1 = Paper \<and> type2 = Rock then Some type1
      else if type2 = Paper \<and> type1 = Rock then Some type2
      else None)"

section \<open>Objects, callbacks and the arena\<close>

text \<open>
  Soldiers are shared objects: an army's roster holds references, \<open>indexOf\<close> compares
  references, and a callback keeps the reference it captured. The store maps each
  reference to the soldier behind it; \<open>next_ref\<close> is the next unused reference. The
  store also keeps the callbacks that are scheduled and have not run yet, each with its
  delay in milliseconds: the one-shot reverts of the power-up effects (\<open>setTimeout\<close>)
  and the end of a conversion animation (\<open>playConversionEffect\<close>, 400 ms, with the
  mesh scale it captured at its start). An army is named in a callback by its type, the
  key under which \<open>Game.armies\<close> holds it.
\<close>

type_synonym ref = nat

datatype callback =
  ResetSpeed faction
  | ResetInvincible faction
  | ResetReversed faction
  | ResetMagnet faction
  | FinishConversion ref real faction faction

record store =
  objs :: "ref \<Rightarrow> soldier"
  next_ref :: ref
  pending :: "(real \<times> callback) list"

definition alloc :: "soldier \<Rightarrow> store \<Rightarrow> ref \<times> store" where
  "alloc s st =
     (next_ref st, st\<lparr>objs := (objs st)(next_ref st := s), next_ref := Suc (next_ref st)\<rparr>)"

definition modify :: "ref \<Rightarrow> (soldier \<Rightarrow> soldier) \<Rightarrow> store \<Rightarrow> store" where
  "modify r f st = st\<lparr>objs := (objs st)(r := f (objs st r))\<rparr>"

definition schedule :: "real \<Rightarrow> callback \<Rightarrow> store \<Rightarrow> store" where
  "schedule ms cb st = st\<lparr>pending := pending st @ [(ms, cb)]\<rparr>"

text \<open>The part of the arena that \<open>Army.update\<close> queries (Arena, src/unnamed/part_001).\<close>

record bounds =
  minX :: real
  maxX :: real
  minZ :: real
  maxZ :: real

record zone =
  center_x :: real
  center_y :: real
  radius :: real
  multiplier :: real

record arena =
  walls :: "bounds list"
  speedZones :: "zone list"
  slowZones :: "zone list"

text \<open>\<open>checkWallCollision\<close>: the push vector of the first wall hit, or no collision.\<close>

definition wall_hit :: "bounds \<Rightarrow> real \<Rightarrow> real \<Rightarrow> real \<Rightarrow> (real \<times> real) option" where
  "wall_hit b x z r =
     (let closestX = max (minX b) (min x (maxX b));
          closestZ = max (minZ b) (min z (maxZ b));
          distX = x - closestX;
          distZ = z - closestZ;
          distSquared = distX * distX + distZ * distZ
      in if distSquared < r * r then Some (distX, distZ) else None)"

primrec checkWallCollision_loop :: "bounds list \<Rightarrow> real \<Rightarrow> real \<Rightarrow> real \<Rightarrow> (real \<times> real) option" where
  "checkWallCollision_loop [] x z r = None"
| "checkWallCollision_loop (b # bs) x z r =
     (case wall_hit b x z r of
        Some push \<Rightarrow> Some push
      | None \<Rightarrow> checkWallCollision_loop bs x z r)"

definition checkWallCollision :: "arena \<Rightarrow> real \<Rightarrow> real \<Rightarrow> real \<Rightarrow> (real \<times> real) option" where
  "checkWallCollision ar x z r = checkWallCollision_loop (walls ar) x z r"

definition in_zone :: "zone \<Rightarrow> real \<Rightarrow> real \<Rightarrow> bool" where
  "in_zone c x z = (sqrt ((x - center_x c) ^ 2 + (z - center_y c) ^ 2) < radius c)"

primrec zone_loop :: "zone list \<Rightarrow> real \<Rightarrow> real \<Rightarrow> real option" where
  "zone_loop [] x z = None"
| "zone_loop (c # cs) x z =
     (if in_zone c x z then Some (multiplier c) else zone_loop cs x z)"

definition getSlowMultiplier :: "arena \<Rightarrow> real \<Rightarrow> real \<Rightarrow> real" where
  "getSlowMultiplier ar x z =
     (case zone_loop (speedZones ar) x z of
        Some m \<Rightarrow> m
      | None \<Rightarrow> (case zone_loop (slowZones ar) x z of Some m \<Rightarrow> m | None \<Rightarrow> 1))"

text \<open>\<open>Math.atan2\<close>, without the signed zeros.\<close>

definition atan2 :: "real \<Rightarrow> real \<Rightarrow> real" where
  "atan2 y x =
     (if 0 < x then arctan (y / x)
      else if x < 0 \<and> 0 \<le> y then arctan (y / x) + pi
      else if x < 0 then arctan (y / x) - pi
      else if 0 < y then pi / 2
      else if y < 0 then - (pi / 2)
      else 0)"

text \<open>
  \<open>Soldier.update\<close>: the bobbing animation. \<open>now\<close> is \<open>Date.now()\<close>. The pulse of the
  leader ring changes opacity and ring rotation only, which the model does not hold.
  An id is never empty for a soldier that Army creates, so \<open>charCodeAt(0)\<close> is a number.
\<close>

definition charCodeAt0 :: "string \<Rightarrow> real" where
  "charCodeAt0 s = (case s of [] \<Rightarrow> 0 | c # _ \<Rightarrow> real (of_char c))"

definition Soldier_update :: "real \<Rightarrow> nat \<Rightarrow> soldier \<Rightarrow> soldier" where
  "Soldier_update delta now s =
     (let time = real now * (3 / 1000);
          bobHeight = (if isLeader s then 15 / 100 else 8 / 100);
          baseY = SOLDIER_SIZE * (15 / 10)
      in s\<lparr>pos_y := baseY + sin (time + charCodeAt0 (soldier_id s)) * bobHeight\<rparr>)"

section \<open>Army (src/unnamed/part_001)\<close>

record army =
  army_type :: faction
  isLocal :: bool
  soldiers :: "ref list"
  leader :: "ref option"
  isInvincible :: bool
  speedMultiplier :: real
  isReversed :: bool
  magnetActive :: bool
  maxSoldiers :: int
  aiWanderDir :: "real \<times> real"
  spawnCounter :: nat

text \<open>Decimal digits of a number inside a template string.\<close>

fun digits10 :: "nat \<Rightarrow> string" where
  "digits10 n =
     (if n < 10 then [''0123456789'' ! n]
      else digits10 (n div 10) @ [''0123456789'' ! (n mod 10)])"

declare digits10.simps [simp del]

text \<open>
  The constructor with \<open>createSoldiers\<close> (the second definition in the class body is
  the one in force): the leader first, then \<open>SOLDIERS_PER_ARMY - 1\<close> soldiers with the
  ids \<open>type_0\<close>, \<open>type_1\<close>, ...
\<close>

definition createSoldier_step :: "nat \<Rightarrow> store \<times> army \<Rightarrow> store \<times> army" where
  "createSoldier_step i = (\<lambda>(st, a).
     let ident = type_name (army_type a) @ ''_'' @ digits10 (spawnCounter a);
         (r, st') = alloc (new_Soldier (army_type a) False ident) st
     in (st', a\<lparr>spawnCounter := Suc (spawnCounter a), soldiers := soldiers a @ [r]\<rparr>))"

definition createSoldiers :: "store \<times> army \<Rightarrow> store \<times> army" where
  "createSoldiers = (\<lambda>(st, a).
     let leaderId = type_name (army_type a) @ ''_LEADER'';
         (l, st') = alloc (new_Soldier (army_type a) True leaderId) st;
         a' = a\<lparr>spawnCounter := 0, leader := Some l, soldiers := soldiers a @ [l]\<rparr>
     in fold createSoldier_step [1 ..< SOLDIERS_PER_ARMY] (st', a'))"

definition new_Army :: "faction \<Rightarrow> bool \<Rightarrow> store \<Rightarrow> store \<times> army" where
  "new_Army t loc st =
     createSoldiers (st,
       \<lparr> army_type = t, isLocal = loc, soldiers = [], leader = None,
         isInvincible = False, speedMultiplier = 1, isReversed = False,
         magnetActive = False, maxSoldiers = int SOLDIERS_PER_ARMY,
         aiWanderDir = (0, 0), spawnCounter = 0 \<rparr>)"

definition addSoldier :: "ref \<Rightarrow> army \<Rightarrow> army" where
  "addSoldier r a = a\<lparr>soldiers := soldiers a @ [r]\<rparr>"

definition promoteNewLeader :: "store \<times> army \<Rightarrow> store \<times> army" where
  "promoteNewLeader = (\<lambda>(st, a).
     case soldiers a of
       [] \<Rightarrow> (st, a\<lparr>leader := None\<rparr>)
     | newLeader # _ \<Rightarrow>
         (modify newLeader
            (\<lambda>s. s\<lparr>isLeader := True,
                   mesh_scale := LEADER_SIZE / SOLDIER_SIZE,
                   model_color := COLORS_light (army_type a)\<rparr>) st,
          a\<lparr>leader := Some newLeader\<rparr>))"

text \<open>
  \<open>removeSoldier\<close>: \<open>indexOf\<close> finds the first occurrence of the reference and
  \<open>splice(index, 1)\<close> removes that one.
\<close>

definition removeSoldier :: "ref \<Rightarrow> store \<times> army \<Rightarrow> store \<times> army" where
  "removeSoldier r = (\<lambda>(st, a).
     if r \<in> set (soldiers a) then
       (let a' = a\<lparr>soldiers := remove1 r (soldiers a)\<rparr>
        in if isLeader (objs st r) \<and> 0 < length (soldiers a') then promoteNewLeader (st, a')
           else if isLeader (objs st r) then (st, a'\<lparr>leader := None\<rparr>)
           else (st, a'))
     else (st, a))"

text \<open>
  The power-up methods. Each timed effect sets its flag and schedules the revert.
\<close>

definition activateSpeedBoost :: "real \<Rightarrow> real \<Rightarrow> store \<times> army \<Rightarrow> store \<times> army" where
  "activateSpeedBoost duration m = (\<lambda>(st, a).
     (schedule (duration * 1000) (ResetSpeed (army_type a)) st, a\<lparr>speedMultiplier := m\<rparr>))"

definition activateInvincibility :: "real \<Rightarrow> store \<times> army \<Rightarrow> store \<times> army" where
  "activateInvincibility duration = (\<lambda>(st, a).
     (schedule (duration * 1000) (ResetInvincible (army_type a)) st, a\<lparr>isInvincible := True\<rparr>))"

definition activateReverseControl :: "real \<Rightarrow> store \<times> army \<Rightarrow> store \<times> army" where
  "activateReverseControl duration = (\<lambda>(st, a).
     (schedule (duration * 1000) (ResetReversed (army_type a)) st, a\<lparr>isReversed := True\<rparr>))"

definition activateMagnet :: "real \<Rightarrow> store \<times> army \<Rightarrow> store \<times> army" where
  "activateMagnet duration = (\<lambda>(st, a).
     (schedule (duration * 1000) (ResetMagnet (army_type a)) st, a\<lparr>magnetActive := True\<rparr>))"

text \<open>
  \<open>reinforceSoldiers(count)\<close>. \<open>now i\<close> is \<open>Date.now()\<close> and \<open>rnd i\<close> is
  \<open>Math.random()\<close> in iteration \<open>i\<close>. The loop \<open>for (i = 0; i < toAdd; i++)\<close> does not
  run when \<open>toAdd\<close> is zero or negative.
\<close>

definition reinforce_step :: "(nat \<Rightarrow> nat) \<Rightarrow> (nat \<Rightarrow> real) \<Rightarrow> nat \<Rightarrow> store \<times> army \<Rightarrow> store \<times> army" where
  "reinforce_step now rnd i = (\<lambda>(st, a).
     let ident = type_name (army_type a) @ ''_R_'' @ digits10 (now i) @ ''_'' @ digits10 i;
         soldier = new_Soldier (army_type a) False ident;
         soldier' =
           (case leader a of
              None \<Rightarrow> soldier
            | Some l \<Rightarrow>
                (let angle = rnd i * pi * 2;
                     dist = FOLLOW_DISTANCE * 2
                 in setPosition (pos_x (objs st l) + cos angle * dist) SOLDIER_SIZE
                      (pos_z (objs st l) + sin angle * dist) soldier));
         (r, st') = alloc soldier' st
     in (st', a\<lparr>soldiers := soldiers a @ [r]\<rparr>))"

definition reinforceSoldiers :: "(nat \<Rightarrow> nat) \<Rightarrow> (nat \<Rightarrow> real) \<Rightarrow> int \<Rightarrow> store \<times> army \<Rightarrow> store \<times> army" where
  "reinforceSoldiers now rnd count = (\<lambda>(st, a).
     let currentCount = int (length (soldiers a));
         toAdd = min count (maxSoldiers a - currentCount)
     in fold (reinforce_step now rnd) [0 ..< nat toAdd] (st, a))"

text \<open>
  Movement. An input vector is \<open>None\<close> for \<open>null\<close> or \<open>undefined\<close>. The axis-locked
  slide and the clamp to the arena are the same for the leader and for a follower.
\<close>

definition slide_and_clamp :: "arena \<Rightarrow> real \<Rightarrow> real \<Rightarrow> real \<Rightarrow> real \<Rightarrow> real \<times> real" where
  "slide_and_clamp ar oldX oldZ newX newZ =
     (let (newX1, newZ1) =
            (case checkWallCollision ar newX newZ SOLDIER_COLLISION_RADIUS of
               Some (pushX, pushZ) \<Rightarrow>
                 if \<bar>pushX\<bar> > \<bar>pushZ\<bar> then (oldX, newZ) else (newX, oldZ)
             | None \<Rightarrow> (newX, newZ));
          margin = SOLDIER_COLLISION_RADIUS
      in (max (- ARENA_WIDTH / 2 + margin) (min (ARENA_WIDTH / 2 - margin) newX1),
          max (- ARENA_HEIGHT / 2 + margin) (min (ARENA_HEIGHT / 2 - margin) newZ1)))"

definition moveLeader :: "real \<Rightarrow> real \<Rightarrow> real \<Rightarrow> real \<Rightarrow> arena \<Rightarrow> store \<times> army \<Rightarrow> store \<times> army" where
  "moveLeader delta inputX inputZ speed ar = (\<lambda>(st, a).
     case leader a of
       None \<Rightarrow> (st, a)
     | Some l \<Rightarrow>
         (let movement = speed * delta;
              oldX = pos_x (objs st l);
              oldZ = pos_z (objs st l);
              (newX, newZ) =
                slide_and_clamp ar oldX oldZ (oldX + inputX * movement) (oldZ + inputZ * movement)
          in (modify l
                (\<lambda>s. s\<lparr>pos_x := newX, pos_z := newZ,
                       rot_y := (if inputX \<noteq> 0 \<or> inputZ \<noteq> 0 then atan2 inputX inputZ
                                 else rot_y s)\<rparr>) st,
              a)))"

definition follow_step :: "real \<Rightarrow> arena \<Rightarrow> ref \<Rightarrow> ref \<Rightarrow> store \<Rightarrow> store" where
  "follow_step speed ar target r st =
     (let curX = pos_x (objs st r);
          curZ = pos_z (objs st r);
          dx = pos_x (objs st target) - curX;
          dz = pos_z (objs st target) - curZ;
          distance = sqrt (dx * dx + dz * dz)
      in if distance > FOLLOW_DISTANCE then
           (let moveSpeed = speed * FOLLOW_SMOOTHING * (1 + (distance - FOLLOW_DISTANCE));
                (newX, newZ) =
                  slide_and_clamp ar curX curZ
                    (curX + (dx / distance) * moveSpeed) (curZ + (dz / distance) * moveSpeed)
            in modify r
                 (\<lambda>s. s\<lparr>pos_x := newX, pos_z := newZ,
                        rot_y := (if dx \<noteq> 0 \<or> dz \<noteq> 0 then atan2 dx dz else rot_y s)\<rparr>) st)
         else st)"

text \<open>
  The \<open>forEach\<close> over the followers: the first one targets \<open>this.leader\<close> (and is
  skipped when there is none), each later one the follower before it.
\<close>

primrec follow_loop :: "real \<Rightarrow> arena \<Rightarrow> ref option \<Rightarrow> ref list \<Rightarrow> store \<Rightarrow> store" where
  "follow_loop speed ar target [] st = st"
| "follow_loop speed ar target (r # rs) st =
     follow_loop speed ar (Some r) rs
       (case target of None \<Rightarrow> st | Some t \<Rightarrow> follow_step speed ar t r st)"

definition updateFollowers :: "real \<Rightarrow> real \<Rightarrow> arena \<Rightarrow> store \<times> army \<Rightarrow> store \<times> army" where
  "updateFollowers delta speed ar = (\<lambda>(st, a).
     let followers = filter (\<lambda>r. \<not> isLeader (objs st r)) (soldiers a)
     in (follow_loop speed ar (leader a) followers st, a))"

text \<open>
  \<open>Army.update(delta, input, arena)\<close>; \<open>now\<close> is the reading of \<open>Date.now()\<close> that the
  animation of the soldiers uses.
\<close>

definition Army_update :: "real \<Rightarrow> (real \<times> real) option \<Rightarrow> arena \<Rightarrow> nat \<Rightarrow> store \<times> army \<Rightarrow> store \<times> army" where
  "Army_update delta input ar now = (\<lambda>(st, a).
     case input of
       None \<Rightarrow> (st, a)
     | Some (inX, inZ) \<Rightarrow>
         if length (soldiers a) = 0 then (st, a)
         else
           (let baseSpeed = SOLDIER_BASE_SPEED;
                sizePenalty =
                  1 - max 0 (real (length (soldiers a)) - real SOLDIERS_PER_ARMY)
                        * SPEED_PENALTY_PER_SOLDIER;
                speedMult = max sizePenalty MIN_SPEED_MULTIPLIER;
                (lx, lz) = (case leader a of
                              Some l \<Rightarrow> (pos_x (objs st l), pos_z (objs st l))
                            | None \<Rightarrow> (0, 0));
                zoneMult = getSlowMultiplier ar lx lz;
                finalSpeed = baseSpeed * speedMult * zoneMult * speedMultiplier a;
                (moveX, moveZ) = (if isReversed a then (- inX, - inZ) else (inX, inZ));
                w1 = (case leader a of
                        Some _ \<Rightarrow> moveLeader delta moveX moveZ finalSpeed ar (st, a)
                      | None \<Rightarrow> (st, a));
                (st2, a2) = updateFollowers delta finalSpeed ar w1
            in (fold (\<lambda>r. modify r (Soldier_update delta now)) (soldiers a2) st2, a2)))"

section \<open>Game (src/src/game/Game.js)\<close>

text \<open>
  \<open>Game.armies\<close> is a \<open>Map\<close>: an association list in insertion order, with
  \<^const>\<open>map_of\<close> for \<open>get\<close> and \<^const>\<open>AList.update\<close> for \<open>set\<close>. \<open>app_calls\<close>
  records, in order, the calls the game makes on its collaborators \<open>this.app.ui\<close>,
  \<open>this.app.audio\<close> and \<open>this.app.network\<close>.
\<close>

datatype error = TypeError

datatype app_call =
  AudioConvert
  | AudioVictory
  | AudioPowerUp
  | UiShowGameOver faction nat
  | UiUpdateSoldierCounts "(faction \<times> nat) list"
  | UiShowPowerUpActive powerup_type real
  | NetSendConversion string faction faction

record powerUp =
  powerUp_type :: powerup_type
  powerUp_x :: real
  powerUp_z :: real
  isCollected :: bool

record powerUpManager =
  powerUps :: "powerUp list"
  isSpawning :: bool
  spawnTimer :: real

record game =
  state :: game_state
  localPlayerType :: "faction option"
  armies :: "(faction \<times> army) list"
  heap :: store
  isSoloTest :: bool
  powerUpManager :: "powerUpManager option"
  app_calls :: "app_call list"

text \<open>
  A method call on the army object held under a key. The callbacks name their armies by
  key; an army whose key is gone is no longer reachable from the game, and the call
  leaves the game as it is.
\<close>

definition with_army :: "faction \<Rightarrow> (store \<times> army \<Rightarrow> store \<times> army) \<Rightarrow> game \<Rightarrow> game" where
  "with_army t f g =
     (case map_of (armies g) t of
        None \<Rightarrow> g
      | Some a \<Rightarrow>
          (let (st', a') = f (heap g, a)
           in g\<lparr>heap := st', armies := AList.update t a' (armies g)\<rparr>))"

text \<open>
  \<open>convertSoldier\<close>: the soldier is flagged, the sound is played, and the rest runs when
  the animation of \<open>playConversionEffect\<close> ends.
\<close>

definition convertSoldier :: "ref \<Rightarrow> faction \<Rightarrow> faction \<Rightarrow> game \<Rightarrow> game" where
  "convertSoldier r fromType toType g =
     (let st1 = modify r (\<lambda>s. s\<lparr>isConverting := True\<rparr>) (heap g);
          st2 = schedule 400 (FinishConversion r (mesh_scale (objs st1 r)) fromType toType) st1
      in g\<lparr>heap := st2, app_calls := app_calls g @ [AudioConvert]\<rparr>)"

text \<open>
  The callback of \<open>convertSoldier\<close>, after the animation has restored the scale.
  \<open>fromArmy.type\<close> and \<open>toArmy.type\<close> are read from the armies under the two keys.
\<close>

definition army_type_at :: "game \<Rightarrow> faction \<Rightarrow> faction" where
  "army_type_at g k = (case map_of (armies g) k of None \<Rightarrow> k | Some a \<Rightarrow> army_type a)"

definition finishConversion :: "ref \<Rightarrow> real \<Rightarrow> faction \<Rightarrow> faction \<Rightarrow> game \<Rightarrow> game" where
  "finishConversion r startScale fromType toType g =
     (let g1 = g\<lparr>heap := modify r (\<lambda>s. s\<lparr>mesh_scale := startScale\<rparr>) (heap g)\<rparr>;
          g2 = with_army fromType (removeSoldier r) g1;
          g3 = with_army toType (\<lambda>(st, a). (st, addSoldier r a)) g2;
          g4 = g3\<lparr>heap := modify r
                 (\<lambda>s. (changeType (army_type_at g3 toType) s)\<lparr>isConverting := False\<rparr>) (heap g3)\<rparr>
      in if isSoloTest g4 then g4
         else g4\<lparr>app_calls := app_calls g4 @
                  [NetSendConversion (soldier_id (objs (heap g4) r))
                     (army_type_at g4 fromType) (army_type_at g4 toType)]\<rparr>)"

text \<open>Running a scheduled callback, once it has been taken off the pending list.\<close>

fun runCallback :: "callback \<Rightarrow> game \<Rightarrow> game" where
  "runCallback (ResetSpeed t) g = with_army t (\<lambda>(st, a). (st, a\<lparr>speedMultiplier := 1\<rparr>)) g"
| "runCallback (ResetInvincible t) g = with_army t (\<lambda>(st, a). (st, a\<lparr>isInvincible := False\<rparr>)) g"
| "runCallback (ResetReversed t) g = with_army t (\<lambda>(st, a). (st, a\<lparr>isReversed := False\<rparr>)) g"
| "runCallback (ResetMagnet t) g = with_army t (\<lambda>(st, a). (st, a\<lparr>magnetActive := False\<rparr>)) g"
| "runCallback (FinishConversion r sc fromType toType) g = finishConversion r sc fromType toType g"

definition fire :: "nat \<Rightarrow> game \<Rightarrow> game" where
  "fire i g =
     (if i < length (pending (heap g)) then
        (let cb = snd (pending (heap g) ! i);
             st = heap g
         in runCallback cb
              (g\<lparr>heap := st\<lparr>pending := take i (pending st) @ drop (Suc i) (pending st)\<rparr>\<rparr>))
      else g)"

text \<open>
  \<open>handleCollision(soldier1, soldier2, army1, army2)\<close>, the two armies given by their
  keys.
\<close>

definition handleCollision :: "ref \<Rightarrow> ref \<Rightarrow> faction \<Rightarrow> faction \<Rightarrow> game \<Rightarrow> game" where
  "handleCollision soldier1 soldier2 k1 k2 g =
     (case (map_of (armies g) k1, map_of (armies g) k2) of
        (Some army1, Some army2) \<Rightarrow>
          if isInvincible army1 \<or> isInvincible army2 then g
          else
            (let type1 = army_type army1;
                 type2 = army_type army2;
                 winner = getRPSWinner type1 type2
             in if winner = Some type1 then convertSoldier soldier2 k2 k1 g
                else if winner = Some type2 then convertSoldier soldier1 k1 k2 g
                else g)
      | _ \<Rightarrow> g)"

definition updateSoldierCounts :: "game \<Rightarrow> game" where
  "updateSoldierCounts g =
     g\<lparr>app_calls := app_calls g @
          [UiUpdateSoldierCounts (map (\<lambda>(t, a). (t, length (soldiers a))) (armies g))]\<rparr>"

definition stopSpawning :: "powerUpManager \<Rightarrow> powerUpManager" where
  "stopSpawning pm = pm\<lparr>isSpawning := False, powerUps := []\<rparr>"

text \<open>
  \<open>endGame\<close>. \<open>this.powerUpManager\<close> is null before the first \<open>startGame\<close>, and
  \<open>this.armies.get(winnerType)\<close> is undefined for a key the map does not hold: a method
  call or property read on either throws.
\<close>

definition endGame :: "faction \<Rightarrow> game \<Rightarrow> error + game" where
  "endGame winnerType g =
     (case powerUpManager g of
        None \<Rightarrow> Inl TypeError
      | Some pm \<Rightarrow>
          (case map_of (armies g) winnerType of
             None \<Rightarrow> Inl TypeError
           | Some winnerArmy \<Rightarrow>
               Inr (g\<lparr>state := ENDED,
                      powerUpManager := Some (stopSpawning pm),
                      app_calls := app_calls g @
                        [UiShowGameOver winnerType (length (soldiers winnerArmy)), AudioVictory]\<rparr>)))"

definition checkWinCondition :: "game \<Rightarrow> error + game" where
  "checkWinCondition g =
     (let activeArmies = filter (\<lambda>(t, a). length (soldiers a) > 0) (armies g)
      in if length activeArmies = 1 then endGame (fst (hd activeArmies)) g else Inr g)"

section \<open>Power-ups (PowerUpManager, src/unnamed/part_001)\<close>

text \<open>
  \<open>applySplitToEnemies\<close>: every soldier of another army that is not flagged leader is
  pushed by 3 in a random direction. The counter numbers the draws of \<open>Math.random()\<close>.
\<close>

definition split_soldier :: "(nat \<Rightarrow> real) \<Rightarrow> ref \<Rightarrow> nat \<times> store \<Rightarrow> nat \<times> store" where
  "split_soldier rnd r = (\<lambda>(n, st).
     if isLeader (objs st r) then (n, st)
     else
       (let angle = rnd n * pi * 2;
            force = 3
        in (Suc n,
            modify r (\<lambda>s. s\<lparr>pos_x := pos_x s + cos angle * force,
                              pos_z := pos_z s + sin angle * force\<rparr>) st)))"

definition applySplitToEnemies :: "(nat \<Rightarrow> real) \<Rightarrow> faction \<Rightarrow> game \<Rightarrow> game" where
  "applySplitToEnemies rnd t g =
     g\<lparr>heap :=
          snd (fold (\<lambda>(k, enemyArmy) w.
                       if k = t then w else fold (split_soldier rnd) (soldiers enemyArmy) w)
                 (armies g) (0, heap g))\<rparr>"

text \<open>
  \<open>applyReverseToRandomEnemy\<close>: \<open>r\<close> is the draw of \<open>Math.random()\<close>, in \<open>[0, 1)\<close>.
\<close>

definition applyReverseToRandomEnemy :: "real \<Rightarrow> faction \<Rightarrow> real \<Rightarrow> game \<Rightarrow> game" where
  "applyReverseToRandomEnemy r t duration g =
     (let enemyTypes = filter (\<lambda>k. k \<noteq> t) (map fst (armies g))
      in if length enemyTypes = 0 then g
         else with_army (enemyTypes ! nat \<lfloor>r * real (length enemyTypes)\<rfloor>)
                (activateReverseControl duration) g)"

text \<open>
  \<open>applyPowerUp(type, army)\<close>, the army given by its key. The decoy of
  \<open>createCloneLeader\<close> is a mesh outside the simulation state; the call reads
  \<open>army.leader.getPosition()\<close> and throws when the army has no leader.
\<close>

definition applyPowerUp ::
  "(nat \<Rightarrow> nat) \<Rightarrow> (nat \<Rightarrow> real) \<Rightarrow> powerup_type \<Rightarrow> faction \<Rightarrow> game \<Rightarrow> error + game" where
  "applyPowerUp now rnd ty t g =
     (case ty of
        SPEED_BOOST \<Rightarrow>
          Inr (with_army t (activateSpeedBoost (config_duration ty) speed_boost_multiplier) g)
      | INVINCIBILITY \<Rightarrow> Inr (with_army t (activateInvincibility (config_duration ty)) g)
      | REINFORCEMENT \<Rightarrow> Inr (with_army t (reinforceSoldiers now rnd soldiersToRestore) g)
      | MAGNET_AURA \<Rightarrow> Inr (with_army t (activateMagnet (config_duration ty)) g)
      | SPLIT_FORMATION \<Rightarrow> Inr (applySplitToEnemies rnd t g)
      | CLONE_LEADER \<Rightarrow>
          (case map_of (armies g) t of
             None \<Rightarrow> Inr g
           | Some a \<Rightarrow> (case leader a of None \<Rightarrow> Inl TypeError | Some _ \<Rightarrow> Inr g))
      | REVERSE_CONTROL \<Rightarrow> Inr (applyReverseToRandomEnemy (rnd 0) t (config_duration ty) g))"

section \<open>NetworkManager, cloud relay version (src/src/network/NetworkManager.js)\<close>

record player =
  player_id :: string
  username :: string
  connected :: bool

record soldierData =
  sd_id :: string
  sd_x :: real
  sd_z :: real
  sd_isLeader :: bool

record armyData =
  ad_soldiers :: "soldierData list"
  ad_isInvincible :: bool
  ad_speedMultiplier :: real

text \<open>
  The messages, by their \<open>type\<close> tag, with the fields the handlers read. \<open>fromId\<close> is
  the sender identity that \<open>broadcast\<close> adds.
\<close>

datatype payload =
  join_request string string
  | player_assigned string faction "(faction \<times> player) list"
  | game_start
  | player_input faction real real
  | game_state "(faction \<times> armyData) list"
  | conversion string faction faction
  | game_over faction
  | player_left
  | party_full string

record message =
  fromId :: string
  body :: payload

datatype net_call =
  RealtimeBroadcast message
  | RealtimeJoinChannel string
  | RealtimeLeave
  | UiShowLobby "string option" "faction option"
  | UiHideJoinModal
  | UiUpdatePlayerSlots "(faction \<times> bool \<times> string) list"
  | Alert string

record network =
  isHost :: bool
  partyId :: "string option"
  net_localPlayerType :: "faction option"
  syncInterval :: bool
  players :: "(faction \<times> player) list"
  remoteInputs :: "(faction \<times> real \<times> real) list"

text \<open>
  The application: the game (null until it is constructed), the network manager, the
  identity of the local user (\<open>IdentityService.currentUser\<close>) and the calls made on the
  relay and on the user interface.
\<close>

record app =
  app_game :: "game option"
  app_network :: network
  currentUser_id :: string
  currentUser_username :: string
  net_calls :: "net_call list"

definition broadcast :: "payload \<Rightarrow> app \<Rightarrow> app" where
  "broadcast b ap =
     ap\<lparr>net_calls := net_calls ap @ [RealtimeBroadcast \<lparr>fromId = currentUser_id ap, body = b\<rparr>]\<rparr>"

primrec first_free :: "faction list \<Rightarrow> (faction \<times> player) list \<Rightarrow> faction option" where
  "first_free [] ps = None"
| "first_free (t # ts) ps = (if map_of ps t = None then Some t else first_free ts ps)"

definition getNextAvailableType :: "network \<Rightarrow> faction option" where
  "getNextAvailableType n = first_free [Paper, Scissors] (players n)"

definition getPlayersArray :: "network \<Rightarrow> (faction \<times> player) list" where
  "getPlayersArray n = players n"

definition syncPlayersFromArray :: "(faction \<times> player) list \<Rightarrow> network \<Rightarrow> network" where
  "syncPlayersFromArray arr n = n\<lparr>players := fold (\<lambda>(t, p). AList.update t p) arr []\<rparr>"

definition updatePlayerList :: "app \<Rightarrow> app" where
  "updatePlayerList ap =
     ap\<lparr>net_calls := net_calls ap @
          [UiUpdatePlayerSlots
             (map (\<lambda>(t, p). (t, connected p,
                      if player_id p = currentUser_id ap then ''You''
                      else if username p = [] then ''Friend'' else username p))
                (players (app_network ap)))]\<rparr>"

definition sendConversion :: "string \<Rightarrow> faction \<Rightarrow> faction \<Rightarrow> app \<Rightarrow> app" where
  "sendConversion soldierId fromType toType ap = broadcast (conversion soldierId fromType toType) ap"

definition leaveParty :: "app \<Rightarrow> app" where
  "leaveParty ap =
     (let ap1 = broadcast player_left ap
      in ap1\<lparr>net_calls := net_calls ap1 @ [RealtimeLeave],
             app_network := (app_network ap1)\<lparr>syncInterval := False, players := [],
                                remoteInputs := [], isHost := False, partyId := None\<rparr>\<rparr>)"

primrec mark_disconnected :: "string \<Rightarrow> (faction \<times> player) list \<Rightarrow> (faction \<times> player) list option" where
  "mark_disconnected pid [] = None"
| "mark_disconnected pid (e # es) =
     (if player_id (snd e) = pid then Some ((fst e, (snd e)\<lparr>connected := False\<rparr>) # es)
      else map_option (\<lambda>es'. e # es') (mark_disconnected pid es))"

definition handlePeerDisconnect :: "string \<Rightarrow> app \<Rightarrow> app" where
  "handlePeerDisconnect pid ap =
     (case mark_disconnected pid (players (app_network ap)) of
        None \<Rightarrow> ap
      | Some ps \<Rightarrow> updatePlayerList (ap\<lparr>app_network := (app_network ap)\<lparr>players := ps\<rparr>\<rparr>))"

text \<open>
  \<open>handleGameStateSync\<close>: for each army of the message that exists locally, each
  listed soldier found by id in the local roster moves towards the listed position by
  \<open>lerpSpeed\<close>; then the two status fields are overwritten.
\<close>

definition lerpSpeed :: real where "lerpSpeed = 1 / 2"

definition lerp_soldier :: "soldierData \<Rightarrow> soldier \<Rightarrow> soldier" where
  "lerp_soldier d s =
     s\<lparr>pos_x := pos_x s + (sd_x d - pos_x s) * lerpSpeed,
       pos_z := pos_z s + (sd_z d - pos_z s) * lerpSpeed\<rparr>"

definition find_soldier :: "store \<Rightarrow> ref list \<Rightarrow> string \<Rightarrow> ref option" where
  "find_soldier st rs i = List.find (\<lambda>r. soldier_id (objs st r) = i) rs"

definition sync_soldier :: "ref list \<Rightarrow> soldierData \<Rightarrow> store \<Rightarrow> store" where
  "sync_soldier rs d st =
     (case find_soldier st rs (sd_id d) of
        None \<Rightarrow> st
      | Some r \<Rightarrow> modify r (lerp_soldier d) st)"

definition sync_army :: "faction \<times> armyData \<Rightarrow> game \<Rightarrow> game" where
  "sync_army = (\<lambda>(t, d) g.
     case map_of (armies g) t of
       None \<Rightarrow> g
     | Some a \<Rightarrow>
         g\<lparr>heap := fold (sync_soldier (soldiers a)) (ad_soldiers d) (heap g),
           armies := AList.update t
                       (a\<lparr>isInvincible := ad_isInvincible d,
                          speedMultiplier := ad_speedMultiplier d\<rparr>) (armies g)\<rparr>)"

definition handleGameStateSync :: "(faction \<times> armyData) list \<Rightarrow> app \<Rightarrow> app" where
  "handleGameStateSync data_armies ap =
     (if isHost (app_network ap) then ap
      else case app_game ap of
             None \<Rightarrow> ap
           | Some g \<Rightarrow>
               if state g \<noteq> PLAYING then ap
               else ap\<lparr>app_game := Some (fold sync_army data_armies g)\<rparr>)"

definition handleRemoteConversion :: "string \<Rightarrow> faction \<Rightarrow> faction \<Rightarrow> app \<Rightarrow> app" where
  "handleRemoteConversion soldierId fromType toType ap =
     (case app_game ap of
        None \<Rightarrow> ap
      | Some g \<Rightarrow>
          (case (map_of (armies g) fromType, map_of (armies g) toType) of
             (Some fromArmy, Some toArmy) \<Rightarrow>
               (case find_soldier (heap g) (soldiers fromArmy) soldierId of
                  Some r \<Rightarrow>
                    if \<not> isConverting (objs (heap g) r)
                    then ap\<lparr>app_game := Some (convertSoldier r fromType toType g)\<rparr>
                    else ap
                | None \<Rightarrow> ap)
           | _ \<Rightarrow> ap))"

text \<open>
  \<open>handleMessage\<close>. \<open>handleGameStart\<close> calls \<open>this.app.game.startMatch()\<close>, a method
  that Game does not define, and \<open>game_over\<close> calls \<open>endGame\<close> on \<open>this.app.game\<close>:
  both throw where the model returns the error.
\<close>

definition handleMessage :: "message \<Rightarrow> app \<Rightarrow> error + app" where
  "handleMessage data ap =
     (if fromId data = currentUser_id ap then Inr ap
      else case body data of
        join_request jid juser \<Rightarrow>
          if isHost (app_network ap) then
            (case getNextAvailableType (app_network ap) of
               Some assignedType \<Rightarrow>
                 (let n = app_network ap;
                      ap1 = ap\<lparr>app_network :=
                                n\<lparr>players := AList.update assignedType
                                     \<lparr>player_id = jid, username = juser, connected = True\<rparr>
                                     (players n)\<rparr>\<rparr>;
                      ap2 = broadcast
                              (player_assigned jid assignedType (getPlayersArray (app_network ap1)))
                              ap1
                  in Inr (updatePlayerList ap2))
             | None \<Rightarrow> Inr (broadcast (party_full jid) ap))
          else Inr ap
      | player_assigned targetId playerType ps \<Rightarrow>
          if targetId = currentUser_id ap then
            (let n = syncPlayersFromArray ps
                       ((app_network ap)\<lparr>net_localPlayerType := Some playerType\<rparr>);
                 ap1 = ap\<lparr>app_network := n,
                          net_calls := net_calls ap @
                            [UiShowLobby (partyId n) (net_localPlayerType n), UiHideJoinModal]\<rparr>
             in Inr (updatePlayerList ap1))
          else Inr (updatePlayerList (ap\<lparr>app_network := syncPlayersFromArray ps (app_network ap)\<rparr>))
      | game_start \<Rightarrow> Inl TypeError
      | player_input playerType x z \<Rightarrow>
          if isHost (app_network ap) then
            Inr (ap\<lparr>app_network :=
                      (app_network ap)\<lparr>remoteInputs :=
                         AList.update playerType (x, z) (remoteInputs (app_network ap))\<rparr>\<rparr>)
          else Inr ap
      | game_state data_armies \<Rightarrow> Inr (handleGameStateSync data_armies ap)
      | conversion soldierId fromType toType \<Rightarrow>
          Inr (handleRemoteConversion soldierId fromType toType ap)
      | game_over winner \<Rightarrow>
          (case app_game ap of
             None \<Rightarrow> Inl TypeError
           | Some g \<Rightarrow>
               (case endGame winner g of
                  Inl e \<Rightarrow> Inl e
                | Inr g' \<Rightarrow> Inr (ap\<lparr>app_game := Some g'\<rparr>)))
      | player_left \<Rightarrow> Inr (handlePeerDisconnect (fromId data) ap)
      | party_full targetId \<Rightarrow>
          if targetId = currentUser_id ap
          then Inr (leaveParty (ap\<lparr>net_calls := net_calls ap @ [Alert ''Party is full!'']\<rparr>))
          else Inr ap)"

section \<open>Party codes\<close>

text \<open>
  \<open>toUpperCase\<close> on the ASCII letters, which are all a party code can hold.
\<close>

definition toUpperCase_char :: "char \<Rightarrow> char" where
  "toUpperCase_char c =
     (case map_of (zip ''abcdefghijklmnopqrstuvwxyz'' ''ABCDEFGHIJKLMNOPQRSTUVWXYZ'') c of
        Some u \<Rightarrow> u
      | None \<Rightarrow> c)"

definition toUpperCase :: "string \<Rightarrow> string" where
  "toUpperCase s = map toUpperCase_char s"

text \<open>\<open>s.substring(a, b)\<close> for \<open>a \<le> b\<close>; both ends are clamped to the length.\<close>

definition substring :: "nat \<Rightarrow> nat \<Rightarrow> string \<Rightarrow> string" where
  "substring a b s = take (b - a) (drop a s)"

text \<open>
  \<open>r.toString(36)\<close> for a number \<open>0 \<le> r < 1\<close>, as far as \<open>substring(2, 8)\<close> reads
  it: \<open>0\<close> for zero, otherwise \<open>0.\<close> and the base-36 digits of the fraction, which end
  when nothing of the fraction is left. The model expands the exact value to at most six
  digits; it is what the engine prints for a value whose expansion ends within them
  (\<open>0.5\<close> is \<open>0.i\<close>). For other values the engine prints the shortest string that
  reads back as the same double, which can be shorter than the exact expansion.
\<close>

definition digit36 :: "nat \<Rightarrow> char" where
  "digit36 d = ''0123456789abcdefghijklmnopqrstuvwxyz'' ! d"

primrec frac36 :: "nat \<Rightarrow> real \<Rightarrow> string" where
  "frac36 0 f = []"
| "frac36 (Suc n) f =
     (if f = 0 then []
      else digit36 (nat \<lfloor>f * 36\<rfloor>) # frac36 n (f * 36 - real (nat \<lfloor>f * 36\<rfloor>)))"

definition toString36 :: "real \<Rightarrow> string" where
  "toString36 r = (if r = 0 then ''0'' else ''0.'' @ frac36 6 r)"

text \<open>\<open>generatePartyId\<close> of the cloud relay version; \<open>r\<close> is \<open>Math.random()\<close>.\<close>

definition generatePartyId :: "real \<Rightarrow> string" where
  "generatePartyId r = toUpperCase (substring 2 8 (toString36 r))"

text \<open>
  \<open>generatePartyId\<close> of the PeerJS versions of the same file; \<open>rnd i\<close> is the draw of
  \<open>Math.random()\<close> in iteration \<open>i\<close>, in \<open>[0, 1)\<close>.
\<close>

definition chars :: string where
  "chars = ''ABCDEFGHJKLMNPQRSTUVWXYZ23456789''"

definition generatePartyId_PeerJS :: "(nat \<Rightarrow> real) \<Rightarrow> string" where
  "generatePartyId_PeerJS rnd =
     fold (\<lambda>i ident. ident @ [chars ! nat \<lfloor>rnd i * real (length chars)\<rfloor>]) [0 ..< 6] []"

definition createParty :: "real \<Rightarrow> app \<Rightarrow> app" where
  "createParty r ap =
     (let pid = generatePartyId r;
          me = \<lparr>player_id = currentUser_id ap, username = currentUser_username ap,
                connected = True\<rparr>;
          n = (app_network ap)\<lparr>partyId := Some pid, isHost := True,
                 net_localPlayerType := Some Rock,
                 players := AList.update Rock me (players (app_network ap))\<rparr>;
          ap1 = ap\<lparr>app_network := n,
                   net_calls := net_calls ap @
                     [RealtimeJoinChannel pid, UiShowLobby (Some pid) (Some Rock)]\<rparr>;
          ap2 = updatePlayerList ap1
      in ap2\<lparr>app_network := (app_network ap2)\<lparr>syncInterval := True\<rparr>\<rparr>)"

definition joinParty :: "string \<Rightarrow> app \<Rightarrow> app" where
  "joinParty pid ap =
     (let n = (app_network ap)\<lparr>partyId := Some (toUpperCase pid), isHost := False\<rparr>;
          ap1 = ap\<lparr>app_network := n,
                   net_calls := net_calls ap @ [RealtimeJoinChannel (toUpperCase pid)]\<rparr>
      in broadcast (join_request (currentUser_id ap1) (currentUser_username ap1)) ap1)"

section \<open>Sequences of conversion steps\<close>

text \<open>
  The two steps by which the host converts soldiers: a collision handled by
  \<open>handleCollision\<close>, and the run of the pending callback at a given position.
\<close>

datatype conversion_step = Collide ref ref faction faction | Callback nat

fun apply_step :: "conversion_step \<Rightarrow> game \<Rightarrow> game" where
  "apply_step (Collide soldier1 soldier2 k1 k2) g = handleCollision soldier1 soldier2 k1 k2 g"
| "apply_step (Callback i) g = fire i g"

section \<open>The entries of a state message that match a soldier\<close>

text \<open>
  The entries of a \<open>game_state\<close> message that \<open>handleGameStateSync\<close> applies to the
  soldier behind a reference: for each army of the message that exists locally, the
  listed soldiers whose id the \<open>find\<close> over the local roster resolves to that reference.
\<close>

definition matching :: "game \<Rightarrow> (faction \<times> armyData) list \<Rightarrow> ref \<Rightarrow> soldierData list" where
  "matching g data r =
     concat (map (\<lambda>(t, d). case map_of (armies g) t of
                     None \<Rightarrow> []
                   | Some a \<Rightarrow>
                       filter (\<lambda>e. find_soldier (heap g) (soldiers a) (sd_id e) = Some r)
                         (ad_soldiers d)) data)"

section \<open>States used in the examples\<close>

text \<open>
  A store with no soldier allocated, and the game as \<open>startGame\<close> builds it for a host
  playing Rock (the three armies in the order of \<open>SOLDIER_TYPES\<close>, before they are
  placed in their spawn zones), in the Playing phase that \<open>startBattle\<close> enters.
\<close>

definition store0 :: store where
  "store0 = \<lparr>objs = (\<lambda>_. new_Soldier Rock False []), next_ref = 0, pending = []\<rparr>"

definition game0 :: game where
  "game0 =
     (let (st1, rock) = new_Army Rock True store0;
          (st2, paper) = new_Army Paper False st1;
          (st3, scissors) = new_Army Scissors False st2
      in \<lparr>state = PLAYING, localPlayerType = Some Rock,
          armies = [(Rock, rock), (Paper, paper), (Scissors, scissors)], heap = st3,
          isSoloTest = False,
          powerUpManager = Some \<lparr>powerUps = [], isSpawning = True, spawnTimer = 8\<rparr>,
          app_calls = []\<rparr>)"

text \<open>The five soldiers that \<open>createSoldiers\<close> allocates for a type.\<close>

definition soldiers_of :: "faction \<Rightarrow> soldier list" where
  "soldiers_of t =
     [new_Soldier t True (type_name t @ ''_LEADER''),
      new_Soldier t False (type_name t @ ''_0''),
      new_Soldier t False (type_name t @ ''_1''),
      new_Soldier t False (type_name t @ ''_2''),
      new_Soldier t False (type_name t @ ''_3'')]"

text \<open>The roster under a key, and the soldiers of it whose leader flag is set.\<close>

definition roster :: "game \<Rightarrow> faction \<Rightarrow> ref list" where
  "roster g t = (case map_of (armies g) t of None \<Rightarrow> [] | Some a \<Rightarrow> soldiers a)"

definition leaders :: "game \<Rightarrow> faction \<Rightarrow> ref list" where
  "leaders g t = filter (\<lambda>r. isLeader (objs (heap g) r)) (roster g t)"

text \<open>A fresh Rock army cut down to three soldiers, and one that has gained a sixth.\<close>

definition army3 :: army where
  "army3 = (snd (new_Army Rock True store0))\<lparr>soldiers := [0, 1, 2]\<rparr>"

definition army6 :: army where
  "army6 = addSoldier 10 (snd (new_Army Rock True store0))"

definition arena0 :: arena where
  "arena0 = \<lparr>walls = [], speedZones = [], slowZones = []\<rparr>"

text \<open>
  The application of a user \<open>u1\<close> before any party, the same user hosting a party, a
  host whose three slots are taken, and a peer that is not host and mirrors the game.
\<close>

definition app0 :: app where
  "app0 = \<lparr>app_game = None,
            app_network = \<lparr>isHost = False, partyId = None, net_localPlayerType = None,
                             syncInterval = False, players = [], remoteInputs = []\<rparr>,
            currentUser_id = ''u1'', currentUser_username = ''ann'', net_calls = []\<rparr>"

definition host0 :: app where "host0 = createParty (1 / 2) app0"

definition host_full :: app where
  "host_full = host0\<lparr>app_network := (app_network host0)\<lparr>players :=
      [(Rock, \<lparr>player_id = ''u1'', username = ''ann'', connected = True\<rparr>),
       (Paper, \<lparr>player_id = ''u2'', username = ''bob'', connected = True\<rparr>),
       (Scissors, \<lparr>player_id = ''u3'', username = ''cy'', connected = False\<rparr>)]\<rparr>\<rparr>"

definition client0 :: app where
  "client0 = app0\<lparr>app_game := Some game0\<rparr>"

text \<open>A state message that puts the Rock leader at \<open>x = 1\<close>.\<close>

definition msg0 :: "(faction \<times> armyData) list" where
  "msg0 = [(Rock, \<lparr>ad_soldiers = [\<lparr>sd_id = ''rock_LEADER'', sd_x = 1, sd_z = 0, sd_isLeader = True\<rparr>],
                   ad_isInvincible = False, ad_speedMultiplier = 1\<rparr>)]"

text \<open>The \<open>x\<close> coordinate a peer holds for a soldier.\<close>

definition client_x :: "app \<Rightarrow> ref \<Rightarrow> real" where
  "client_x ap r = (case app_game ap of None \<Rightarrow> 0 | Some g \<Rightarrow> pos_x (objs (heap g) r))"

text \<open>The game with Paper and Scissors eliminated.\<close>

definition game_last :: game where
  "game_last = game0\<lparr>armies :=
      map (\<lambda>(t, a). (t, if t = Rock then a else a\<lparr>soldiers := [], leader := None\<rparr>)) (armies game0)\<rparr>"

section \<open>Verified properties\<close>

subsection \<open>Closed forms of the constructors\<close>

lemma upt_SOLDIERS_PER_ARMY: "[Suc 0 ..< SOLDIERS_PER_ARMY] = [1, 2, 3, 4]"
  by (simp add: SOLDIERS_PER_ARMY_def upt_rec)

lemma digits10_small:
  "digits10 0 = ''0''" "digits10 (Suc 0) = ''1''"
  "digits10 (Suc (Suc 0)) = ''2''" "digits10 (Suc (Suc (Suc 0))) = ''3''"
  by (simp_all add: digits10.simps)

lemma new_Army_eq:
  "new_Army t loc st =
     (st\<lparr>objs := (objs st)
            (next_ref st := soldiers_of t ! 0, next_ref st + 1 := soldiers_of t ! 1,
             next_ref st + 2 := soldiers_of t ! 2, next_ref st + 3 := soldiers_of t ! 3,
             next_ref st + 4 := soldiers_of t ! 4),
         next_ref := next_ref st + 5\<rparr>,
      \<lparr> army_type = t, isLocal = loc,
        soldiers = [next_ref st, next_ref st + 1, next_ref st + 2, next_ref st + 3,
                    next_ref st + 4],
        leader = Some (next_ref st),
        isInvincible = False, speedMultiplier = 1, isReversed = False,
        magnetActive = False, maxSoldiers = 5,
        aiWanderDir = (0, 0), spawnCounter = 4 \<rparr>)"
  by (simp add: new_Army_def createSoldiers_def upt_SOLDIERS_PER_ARMY Let_def alloc_def
      createSoldier_step_def soldiers_of_def digits10_small eval_nat_numeral
      SOLDIERS_PER_ARMY_def)

subsection \<open>Dominance\<close>

text \<open>
  C3. \<open>getRPSWinner\<close> is symmetric in its arguments, names the dominating faction for
  each of the six ordered pairs of distinct factions (rock beats scissors, scissors
  beats paper, paper beats rock), and is null on equal arguments.
\<close>

theorem C3_getRPSWinner_dominance:
  "getRPSWinner A B = getRPSWinner B A
   \<and> getRPSWinner A A = None
   \<and> getRPSWinner Rock Scissors = Some Rock \<and> getRPSWinner Scissors Rock = Some Rock
   \<and> getRPSWinner Scissors Paper = Some Scissors \<and> getRPSWinner Paper Scissors = Some Scissors
   \<and> getRPSWinner Paper Rock = Some Paper \<and> getRPSWinner Rock Paper = Some Paper"
  by (cases A; cases B) (simp_all add: getRPSWinner_def)


subsection \<open>Identity of a soldier\<close>

lemma changeType_id: "soldier_id (changeType t s) = soldier_id s"
  by (simp add: changeType_def)

lemma fold_changeType_id: "soldier_id (fold changeType ts s) = soldier_id s"
  by (induction ts arbitrary: s) (simp_all add: changeType_id)

lemma promoteNewLeader_id:
  "soldier_id (objs (fst (promoteNewLeader w)) r') = soldier_id (objs (fst w) r')"
  by (cases w) (simp add: promoteNewLeader_def modify_def split: list.splits)

lemma removeSoldier_id:
  "soldier_id (objs (fst (removeSoldier r w)) r') = soldier_id (objs (fst w) r')"
  by (cases w) (simp add: removeSoldier_def Let_def promoteNewLeader_id)

lemma with_army_id:
  assumes "\<And>w. soldier_id (objs (fst (f w)) r') = soldier_id (objs (fst w) r')"
  shows "soldier_id (objs (heap (with_army t f g)) r') = soldier_id (objs (heap g) r')"
  using assms [of "(heap g, a)" for a]
  by (simp add: with_army_def split: option.splits prod.splits) (metis fst_conv)

lemma convertSoldier_id:
  "soldier_id (objs (heap (convertSoldier r f t g)) r') = soldier_id (objs (heap g) r')"
  by (simp add: convertSoldier_def Let_def schedule_def modify_def)

lemma finishConversion_id:
  "soldier_id (objs (heap (finishConversion r sc f t g)) r') = soldier_id (objs (heap g) r')"
proof -
  let ?g1 = "g\<lparr>heap := modify r (\<lambda>s. s\<lparr>mesh_scale := sc\<rparr>) (heap g)\<rparr>"
  let ?g2 = "with_army f (removeSoldier r) ?g1"
  let ?g3 = "with_army t (\<lambda>(st, a). (st, addSoldier r a)) ?g2"
  have 1: "soldier_id (objs (heap ?g1) r') = soldier_id (objs (heap g) r')"
    by (simp add: modify_def)
  have 2: "soldier_id (objs (heap ?g2) r') = soldier_id (objs (heap ?g1) r')"
    by (rule with_army_id) (rule removeSoldier_id)
  have 3: "soldier_id (objs (heap ?g3) r') = soldier_id (objs (heap ?g2) r')"
    by (rule with_army_id) (simp add: split_def)
  have "soldier_id (objs (heap (finishConversion r sc f t g)) r') =
          soldier_id (objs (heap ?g3) r')"
    by (simp add: finishConversion_def Let_def modify_def changeType_id)
  with 1 2 3 show ?thesis by simp
qed

lemma handleCollision_id:
  "soldier_id (objs (heap (handleCollision s1 s2 k1 k2 g)) r') = soldier_id (objs (heap g) r')"
  by (simp add: handleCollision_def Let_def convertSoldier_id split: option.splits)

lemma runCallback_id:
  "soldier_id (objs (heap (runCallback cb g)) r') = soldier_id (objs (heap g) r')"
  by (cases cb) (simp_all add: finishConversion_id with_army_id split_def)

lemma fire_id:
  "soldier_id (objs (heap (fire i g)) r') = soldier_id (objs (heap g) r')"
  by (simp add: fire_def Let_def runCallback_id)

lemma apply_step_id:
  "soldier_id (objs (heap (apply_step s g)) r') = soldier_id (objs (heap g) r')"
  by (cases s) (simp_all add: handleCollision_id fire_id)

lemma fold_apply_step_id:
  "soldier_id (objs (heap (fold apply_step steps g)) r') = soldier_id (objs (heap g) r')"
  by (induction steps arbitrary: g) (simp_all add: apply_step_id)

text \<open>
  C4. The id of a soldier is the same after any sequence of \<open>changeType\<close> calls; the
  id behind every reference is the same after \<open>convertSoldier\<close> has flagged a soldier,
  after the callback has moved it between the armies and changed its type, and after
  any sequence of collisions and callback runs.
\<close>

theorem C4_id_preserved:
  "soldier_id (fold changeType ts s) = soldier_id s
   \<and> soldier_id (objs (heap (convertSoldier r f t g)) r') = soldier_id (objs (heap g) r')
   \<and> soldier_id (objs (heap (finishConversion r sc f t g)) r') = soldier_id (objs (heap g) r')
   \<and> soldier_id (objs (heap (fold apply_step steps g)) r') = soldier_id (objs (heap g) r')"
  by (simp add: fold_changeType_id convertSoldier_id finishConversion_id fold_apply_step_id)

subsection \<open>Reinforcement\<close>

lemma reinforce_step_length:
  "length (soldiers (snd (reinforce_step now rnd i w))) = Suc (length (soldiers (snd w)))"
  by (cases w) (simp add: reinforce_step_def alloc_def Let_def split: prod.splits option.splits)

lemma reinforce_fold_length:
  "length (soldiers (snd (fold (reinforce_step now rnd) xs w))) =
     length (soldiers (snd w)) + length xs"
  by (induction xs arbitrary: w) (simp_all add: reinforce_step_length)

lemma reinforceSoldiers_length:
  "length (soldiers (snd (reinforceSoldiers now rnd k (st, a)))) =
     length (soldiers a) + nat (min k (maxSoldiers a - int (length (soldiers a))))"
  by (simp add: reinforceSoldiers_def Let_def reinforce_fold_length)

lemma army6_facts: "length (soldiers army6) = 6" "maxSoldiers army6 = 5"
  by (simp_all add: army6_def addSoldier_def new_Army_eq)

lemma army3_facts: "length (soldiers army3) = 3" "maxSoldiers army3 = 5"
  by (simp_all add: army3_def new_Army_eq)

text \<open>
  C5, as stated, fails for an army above its maximum: a roster of six with
  \<open>maxSoldiers = 5\<close> stays at six, where \<open>min (n + k) maxSoldiers\<close> is five.
\<close>

theorem C5_counterexample:
  "\<not> (\<forall>now rnd k st a. 0 \<le> k \<longrightarrow>
        int (length (soldiers (snd (reinforceSoldiers now rnd k (st, a))))) =
          min (int (length (soldiers a)) + k) (maxSoldiers a))"
proof
  assume "\<forall>now rnd k st a. 0 \<le> k \<longrightarrow>
        int (length (soldiers (snd (reinforceSoldiers now rnd k (st, a))))) =
          min (int (length (soldiers a)) + k) (maxSoldiers a)"
  then have "int (length (soldiers (snd (reinforceSoldiers (\<lambda>_. 0) (\<lambda>_. 0) 2 (store0, army6))))) =
          min (int (length (soldiers army6)) + 2) (maxSoldiers army6)"
    by simp
  then show False
    by (simp add: reinforceSoldiers_length army6_facts)
qed

text \<open>
  C5, amended. \<open>reinforceSoldiers(k)\<close> leaves a roster of size \<open>n\<close> at
  \<open>max n (min (n + k) maxSoldiers)\<close>: at \<open>min (n + k) maxSoldiers\<close> when
  \<open>n \<le> maxSoldiers\<close> and \<open>0 \<le> k\<close>, and at \<open>n\<close>, no soldier gained, when
  \<open>maxSoldiers \<le> n\<close>.
\<close>

theorem C5_reinforceSoldiers_size:
  "int (length (soldiers (snd (reinforceSoldiers now rnd k (st, a))))) =
     max (int (length (soldiers a))) (min (int (length (soldiers a)) + k) (maxSoldiers a))"
  by (simp add: reinforceSoldiers_length min_def max_def)

text \<open>The scenario of the specification: three of five, two to restore, ends at five.\<close>

theorem C5_witness:
  "length (soldiers army3) = 3 \<and> maxSoldiers army3 = 5 \<and> soldiersToRestore = 2
   \<and> length (soldiers (snd (reinforceSoldiers (\<lambda>_. 0) (\<lambda>_. 0) soldiersToRestore (store0, army3)))) = 5"
  using C5_reinforceSoldiers_size [of "\<lambda>_. 0" "\<lambda>_. 0" soldiersToRestore store0 army3]
  by (simp add: army3_facts soldiersToRestore_def)

subsection \<open>An eliminated army\<close>

lemma with_army_same:
  "map_of (armies g) t = Some a \<Longrightarrow> f (heap g, a) = (heap g, a) \<Longrightarrow> with_army t f g = g"
  by (simp add: with_army_def update_triv)

text \<open>
  C10. \<open>Army.update\<close> on an army with no soldiers, or with a null input, returns the
  store and the army as they were: no soldier, no leader reference and no status field
  changes. Called on the army under a key of \<open>Game.armies\<close>, as \<open>updateHost\<close> does, it
  leaves the whole game as it was, the army still under its key.
\<close>

theorem C10_update_noop:
  assumes "soldiers a = [] \<or> input = None"
  shows "Army_update delta input ar now (st, a) = (st, a)
    \<and> (map_of (armies g) t = Some a \<longrightarrow>
         with_army t (Army_update delta input ar now) g = g \<and> map_of (armies g) t = Some a)"
proof -
  have "Army_update delta input ar now (st', a) = (st', a)" for st'
    using assms by (auto simp: Army_update_def split: option.splits)
  then show ?thesis by (simp add: with_army_same)
qed

text \<open>
  Instances of C10: the eliminated Paper army of the example with a movement input,
  and a full army with a null input.
\<close>

theorem C10_witness:
  "map_of (armies game_last) Paper = Some (army3\<lparr>army_type := Paper, isLocal := False, soldiers := [], leader := None\<rparr>)
   \<and> Army_update (1 / 60) (Some (1, 0)) arena0 0
        (heap game_last, army3\<lparr>army_type := Paper, isLocal := False, soldiers := [], leader := None\<rparr>)
       = (heap game_last, army3\<lparr>army_type := Paper, isLocal := False, soldiers := [], leader := None\<rparr>)
   \<and> with_army Paper (Army_update (1 / 60) (Some (1, 0)) arena0 0) game_last = game_last
   \<and> Army_update (1 / 60) None arena0 0 (store0, army3) = (store0, army3)"
  using C10_update_noop [of "army3\<lparr>army_type := Paper, isLocal := False, soldiers := [], leader := None\<rparr>"
      "Some (1, 0)" "1 / 60" arena0 0 "heap game_last" game_last Paper]
    C10_update_noop [of army3 None "1 / 60" arena0 0 store0]
  by (simp add: game_last_def game0_def split_def Let_def new_Army_eq army3_def)

subsection \<open>Rosters and leader flags across a conversion\<close>

lemma map_of_with_army:
  "map_of (armies (with_army k f g)) t =
     (case map_of (armies g) k of
        None \<Rightarrow> map_of (armies g) t
      | Some a \<Rightarrow> if t = k then Some (snd (f (heap g, a))) else map_of (armies g) t)"
  by (simp add: with_army_def update_conv' split_def Let_def split: option.splits)

lemma heap_with_army:
  "heap (with_army k f g) =
     (case map_of (armies g) k of None \<Rightarrow> heap g | Some a \<Rightarrow> fst (f (heap g, a)))"
  by (simp add: with_army_def split_def Let_def split: option.splits)

lemma removeSoldier_soldiers:
  "soldiers (snd (removeSoldier r (st, a))) = remove1 r (soldiers a)"
  by (simp add: removeSoldier_def Let_def promoteNewLeader_def remove1_idem split: list.splits)

lemma removeSoldier_isLeader:
  "isLeader (objs (fst (removeSoldier r (st, a))) x) =
     (isLeader (objs st x) \<or>
      (r \<in> set (soldiers a) \<and> isLeader (objs st r) \<and> remove1 r (soldiers a) \<noteq> []
       \<and> x = hd (remove1 r (soldiers a))))"
  by (auto simp: removeSoldier_def Let_def promoteNewLeader_def modify_def split: list.splits)

lemma removeSoldier_leader:
  "r \<in> set (soldiers a) \<Longrightarrow> isLeader (objs st r) \<Longrightarrow>
     leader (snd (removeSoldier r (st, a))) =
       (case remove1 r (soldiers a) of [] \<Rightarrow> None | x # _ \<Rightarrow> Some x)"
  by (auto simp: removeSoldier_def Let_def promoteNewLeader_def modify_def split: list.splits)

lemma finishConversion_roster:
  assumes "f \<noteq> t" "map_of (armies g) f = Some fa" "map_of (armies g) t = Some ta"
  shows "roster (finishConversion r sc f t g) t = soldiers ta @ [r]"
    and "roster (finishConversion r sc f t g) f = remove1 r (soldiers fa)"
  using assms
  by (simp_all add: finishConversion_def Let_def roster_def map_of_with_army heap_with_army
      removeSoldier_soldiers addSoldier_def)

lemma finishConversion_isLeader:
  assumes "map_of (armies g) f = Some fa"
  shows "isLeader (objs (heap (finishConversion r sc f t g)) x) =
     (isLeader (objs (heap g) x) \<or>
      (r \<in> set (soldiers fa) \<and> isLeader (objs (heap g) r) \<and> remove1 r (soldiers fa) \<noteq> []
       \<and> x = hd (remove1 r (soldiers fa))))"
  using assms
  by (simp add: finishConversion_def Let_def map_of_with_army heap_with_army
      removeSoldier_isLeader modify_def changeType_def split_def addSoldier_def split: option.splits)

lemma fire_convertSoldier:
  "pending (heap g) = [] \<Longrightarrow>
   fire 0 (convertSoldier r f t g) =
     finishConversion r (mesh_scale (objs (heap g) r)) f t
       (g\<lparr>app_calls := app_calls g @ [AudioConvert],
          heap := (modify r (\<lambda>s. s\<lparr>isConverting := True\<rparr>) (heap g))\<lparr>pending := []\<rparr>\<rparr>)"
  by (simp add: fire_def convertSoldier_def Let_def schedule_def modify_def)


lemma game0_armies:
  "map_of (armies game0) Rock = Some (snd (new_Army Rock True store0))"
  "map_of (armies game0) Scissors = Some (snd (new_Army Scissors False (fst (new_Army Paper False (fst (new_Army Rock True store0))))))"
  "pending (heap game0) = []"
  by (simp_all add: game0_def split_def Let_def new_Army_eq store0_def)

lemma game0_rosters:
  "roster game0 Rock = [0, 1, 2, 3, 4]" "roster game0 Paper = [5, 6, 7, 8, 9]"
  "roster game0 Scissors = [10, 11, 12, 13, 14]"
  by (simp_all add: roster_def game0_def new_Army_eq store0_def)

lemma game0_flags:
  "map (\<lambda>r. isLeader (objs (heap game0) r)) [0, 1, 2, 3, 4, 10, 11, 12, 13, 14] =
     [True, False, False, False, False, True, False, False, False, False]"
  by (simp add: game0_def new_Army_eq store0_def soldiers_of_def new_Soldier_def)

lemma game0_collision:
  "handleCollision 1 10 Rock Scissors game0 = convertSoldier 10 Scissors Rock game0"
  by (simp add: handleCollision_def game0_armies new_Army_eq getRPSWinner_def)


lemma game0_flag_of:
  "isLeader (objs (heap game0) 0)" "\<not> isLeader (objs (heap game0) 1)"
  "\<not> isLeader (objs (heap game0) 2)" "\<not> isLeader (objs (heap game0) 3)"
  "\<not> isLeader (objs (heap game0) 4)" "isLeader (objs (heap game0) 10)"
  "\<not> isLeader (objs (heap game0) 11)"
  using game0_flags by simp_all

text \<open>
  C1 at a failing input. In the game as \<open>startGame\<close> leaves it, every army has one
  flagged soldier. The Scissors leader (reference 10) then collides with a Rock soldier:
  \<open>handleCollision\<close> starts its conversion, and when the callback has run the Rock roster
  holds two soldiers with the leader flag set, its own leader and the converted one,
  while Scissors has promoted its next soldier.
\<close>

theorem C1_converted_leader_keeps_flag:
  "leaders game0 Rock = [0] \<and> leaders game0 Scissors = [10]
   \<and> roster (fire 0 (handleCollision 1 10 Rock Scissors game0)) Rock = [0, 1, 2, 3, 4, 10]
   \<and> leaders (fire 0 (handleCollision 1 10 Rock Scissors game0)) Rock = [0, 10]
   \<and> leaders (fire 0 (handleCollision 1 10 Rock Scissors game0)) Scissors = [11]"
proof -
  define g' where "g' = game0\<lparr>app_calls := app_calls game0 @ [AudioConvert],
          heap := (modify 10 (\<lambda>s. s\<lparr>isConverting := True\<rparr>) (heap game0))\<lparr>pending := []\<rparr>\<rparr>"
  define sc where "sc = mesh_scale (objs (heap game0) 10)"
  have step: "fire 0 (handleCollision 1 10 Rock Scissors game0) = finishConversion 10 sc Scissors Rock g'"
    unfolding game0_collision g'_def sc_def
    by (rule fire_convertSoldier) (simp add: game0_armies)
  have armies': "armies g' = armies game0" by (simp add: g'_def)
  have flags': "isLeader (objs (heap g') x) = isLeader (objs (heap game0) x)" for x
    by (simp add: g'_def modify_def)
  obtain fa ta where fa: "map_of (armies g') Scissors = Some fa" and ta: "map_of (armies g') Rock = Some ta"
    by (simp add: armies' game0_armies)
  have rfa: "soldiers fa = [10, 11, 12, 13, 14]" and rta: "soldiers ta = [0, 1, 2, 3, 4]"
    using fa ta game0_rosters by (simp_all add: roster_def armies')
  have r1: "roster (finishConversion 10 sc Scissors Rock g') Rock = [0, 1, 2, 3, 4, 10]"
    using finishConversion_roster(1) [of Scissors Rock g' fa ta 10 sc] fa ta rta by simp
  have r2: "roster (finishConversion 10 sc Scissors Rock g') Scissors = [11, 12, 13, 14]"
    using finishConversion_roster(2) [of Scissors Rock g' fa ta 10 sc] fa ta rfa by simp
  have fl: "isLeader (objs (heap (finishConversion 10 sc Scissors Rock g')) x) =
      (isLeader (objs (heap game0) x) \<or> x = 11)" for x
    using finishConversion_isLeader [OF fa, of 10 sc Rock x] rfa
    by (simp add: flags' game0_flag_of)
  have l0: "leaders game0 Rock = [0]" "leaders game0 Scissors = [10]"
    by (simp_all add: leaders_def game0_rosters game0_flag_of)
       (use game0_flags in simp_all)
  show ?thesis
    unfolding step
    by (simp add: l0 r1) (simp add: leaders_def r1 r2 fl game0_flag_of, use game0_flags in simp)
qed


subsection \<open>The win condition\<close>

lemma filter_single_mem: "filter P xs = [x] \<Longrightarrow> x \<in> set xs \<and> P x"
proof -
  assume "filter P xs = [x]"
  then have "x \<in> set (filter P xs)" by simp
  then show ?thesis by simp
qed

lemma length1: "length xs = 1 \<Longrightarrow> \<exists>x. xs = [x]"
  by (cases xs) auto

text \<open>
  C2. In the Playing phase, with the power-up manager that \<open>startGame\<close> creates and the
  keys of the \<open>Map\<close> distinct, \<open>checkWinCondition\<close> (the last step of \<open>updateHost\<close>) does
  not throw; the phase after it is Ended exactly when one army has a non-empty roster;
  with any other number of non-empty armies the game is left as it was; and with
  exactly one, the game over screen is shown for that army's faction and soldier count.
\<close>

theorem C2_checkWinCondition:
  assumes "state g = PLAYING" and "powerUpManager g \<noteq> None"
    and "distinct (map fst (armies g))"
  shows "\<exists>g'. checkWinCondition g = Inr g'
     \<and> (state g' = ENDED \<longleftrightarrow> length (filter (\<lambda>(t, a). length (soldiers a) > 0) (armies g)) = 1)
     \<and> (length (filter (\<lambda>(t, a). length (soldiers a) > 0) (armies g)) \<noteq> 1 \<longrightarrow> g' = g)
     \<and> (\<forall>t a. filter (\<lambda>(t, a). length (soldiers a) > 0) (armies g) = [(t, a)] \<longrightarrow>
           app_calls g' = app_calls g @ [UiShowGameOver t (length (soldiers a)), AudioVictory])"
proof (cases "length (filter (\<lambda>(t, a). length (soldiers a) > 0) (armies g)) = 1")
  case False
  with assms show ?thesis by (auto simp: checkWinCondition_def Let_def)
next
  case True
  then obtain x where x: "filter (\<lambda>(t, a). length (soldiers a) > 0) (armies g) = [x]"
    using length1 by blast
  obtain t a where ta: "x = (t, a)" by (cases x)
  from x ta have "(t, a) \<in> set (armies g)" using filter_single_mem by fastforce
  with assms(3) have m: "map_of (armies g) t = Some a" by simp
  from assms(2) obtain pm where pm: "powerUpManager g = Some pm" by auto
  show ?thesis using True x ta m pm
    by (simp add: checkWinCondition_def Let_def endGame_def)
qed



subsection \<open>Facts about the example states\<close>

lemma game0_state:
  "state game0 = PLAYING" "powerUpManager game0 \<noteq> None"
  "map fst (armies game0) = [Rock, Paper, Scissors]" "app_calls game0 = []"
  by (simp_all add: game0_def split_def Let_def)

lemma game0_ids:
  "map (\<lambda>r. soldier_id (objs (heap game0) r)) [0, 1, 2, 3, 4] =
     [''rock_LEADER'', ''rock_0'', ''rock_1'', ''rock_2'', ''rock_3'']"
  "map (\<lambda>r. soldier_id (objs (heap game0) r)) [10, 11, 12, 13, 14] =
     [''scissors_LEADER'', ''scissors_0'', ''scissors_1'', ''scissors_2'', ''scissors_3'']"
  by (simp_all add: game0_def new_Army_eq store0_def soldiers_of_def new_Soldier_def)

lemma game0_find:
  "find_soldier (heap game0) [0, 1, 2, 3, 4] ''rock_LEADER'' = Some 0"
  "find_soldier (heap game0) [10, 11, 12, 13, 14] ''scissors_LEADER'' = Some 10"
  "find_soldier (heap game0) [10, 11, 12, 13, 14] ''nobody'' = None"
  using game0_ids by (simp_all add: find_soldier_def)

lemma game0_soldier0:
  "pos_x (objs (heap game0) 0) = 0" "pos_z (objs (heap game0) 0) = 0"
  "\<not> isConverting (objs (heap game0) 10)"
  by (simp_all add: game0_def new_Army_eq store0_def soldiers_of_def new_Soldier_def)

lemma game0_rock_roster: "map_option soldiers (map_of (armies game0) Rock) = Some [0, 1, 2, 3, 4]"
  "map_option soldiers (map_of (armies game0) Scissors) = Some [10, 11, 12, 13, 14]"
  by (simp_all add: game0_armies new_Army_eq store0_def)

lemma matching0:
  "matching game0 msg0 0 = [\<lparr>sd_id = ''rock_LEADER'', sd_x = 1, sd_z = 0, sd_isLeader = True\<rparr>]"
  using game0_rock_roster(1) by (auto simp: matching_def msg0_def game0_find simp del: One_nat_def)

lemma client0_facts:
  "\<not> isHost (app_network client0)" "app_game client0 = Some game0" "currentUser_id client0 = ''u1''"
  by (simp_all add: client0_def app0_def)


text \<open>Instances of C2: one army left ends the match for Rock; three armies leave it.\<close>

lemma game_last_facts:
  "state game_last = PLAYING" "powerUpManager game_last \<noteq> None"
  "distinct (map fst (armies game_last))" "app_calls game_last = []"
  "filter (\<lambda>(t, a). length (soldiers a) > 0) (armies game_last) = [(Rock, snd (new_Army Rock True store0))]"
  "length (soldiers (snd (new_Army Rock True store0))) = 5"
  by (simp_all add: game_last_def game0_def split_def Let_def new_Army_eq)

lemma game0_active:
  "length (filter (\<lambda>(t, a). length (soldiers a) > 0) (armies game0)) = 3"
  by (simp add: game0_def split_def Let_def new_Army_eq)

theorem C2_witness:
  "state game_last = PLAYING \<and> powerUpManager game_last \<noteq> None
   \<and> distinct (map fst (armies game_last))
   \<and> (\<exists>g'. checkWinCondition game_last = Inr g' \<and> state g' = ENDED
         \<and> app_calls g' = [UiShowGameOver Rock 5, AudioVictory])
   \<and> state game0 = PLAYING \<and> powerUpManager game0 \<noteq> None
   \<and> distinct (map fst (armies game0))
   \<and> checkWinCondition game0 = Inr game0"
proof -
  have d0: "distinct (map fst (armies game0))" by (simp add: game0_state)
  from C2_checkWinCondition [OF game_last_facts(1-3)]
  obtain g' where g': "checkWinCondition game_last = Inr g'"
    and e: "state g' = ENDED \<longleftrightarrow>
          length (filter (\<lambda>(t, a). length (soldiers a) > 0) (armies game_last)) = 1"
    and c: "\<forall>t a. filter (\<lambda>(t, a). length (soldiers a) > 0) (armies game_last) = [(t, a)] \<longrightarrow>
           app_calls g' = app_calls game_last @ [UiShowGameOver t (length (soldiers a)), AudioVictory]"
    by blast
  from e have 1: "state g' = ENDED" unfolding game_last_facts(5) by simp
  from c game_last_facts(5) have "app_calls g' = app_calls game_last @
      [UiShowGameOver Rock (length (soldiers (snd (new_Army Rock True store0)))), AudioVictory]"
    by blast
  then have 2: "app_calls g' = [UiShowGameOver Rock 5, AudioVictory]"
    unfolding game_last_facts(4,6) by simp
  from C2_checkWinCondition [OF game0_state(1,2) d0]
  obtain g0 where g0: "checkWinCondition game0 = Inr g0"
    and k: "length (filter (\<lambda>(t, a). length (soldiers a) > 0) (armies game0)) \<noteq> 1 \<longrightarrow> g0 = game0"
    by blast
  from k have "g0 = game0" unfolding game0_active by simp
  with g0 have 3: "checkWinCondition game0 = Inr game0" by simp
  from g' 1 2 3 d0 show ?thesis
    using game_last_facts(1-3) game0_state(1,2) by blast
qed


subsection \<open>Party codes\<close>

text \<open>
  C6 at a failing input. When \<open>Math.random()\<close> returns \<open>0.5\<close>, whose base-36 form is
  \<open>0.i\<close>, the cloud relay \<open>generatePartyId\<close> returns the one-character code \<open>I\<close>:
  not six characters, and a character the unambiguous alphabet excludes.
\<close>

theorem C6_generatePartyId_half:
  "generatePartyId (1 / 2) = ''I''
   \<and> length (generatePartyId (1 / 2)) \<noteq> 6
   \<and> CHR ''I'' \<in> set (generatePartyId (1 / 2))"
  by (simp add: generatePartyId_def toString36_def substring_def toUpperCase_def
      toUpperCase_char_def digit36_def eval_nat_numeral)

text \<open>
  The PeerJS versions of the same method do produce six characters of the alphabet
  without \<open>I\<close>, \<open>O\<close>, \<open>0\<close> and \<open>1\<close>, and \<open>joinParty\<close> puts the entered code in upper case
  before it names the channel.
\<close>

lemma gen_half: "generatePartyId (1 / 2) = ''I''"
  by (simp add: generatePartyId_def toString36_def substring_def toUpperCase_def
      toUpperCase_char_def digit36_def eval_nat_numeral)

lemma fold_snoc_map: "fold (\<lambda>i ident. ident @ [f i]) xs acc = acc @ map f xs"
  by (induction xs arbitrary: acc) simp_all

lemma generatePartyId_PeerJS_eq:
  "generatePartyId_PeerJS rnd = map (\<lambda>i. chars ! nat \<lfloor>rnd i * real (length chars)\<rfloor>) [0 ..< 6]"
  by (simp add: generatePartyId_PeerJS_def fold_snoc_map)

lemma length_chars: "length chars = 32"
  by (simp add: chars_def)

lemma generatePartyId_PeerJS_ok:
  assumes "\<And>i. i < 6 \<Longrightarrow> 0 \<le> rnd i \<and> rnd i < 1"
  shows "length (generatePartyId_PeerJS rnd) = 6"
    and "set (generatePartyId_PeerJS rnd) \<subseteq> set chars"
    and "set (generatePartyId_PeerJS rnd) \<inter> {CHR ''I'', CHR ''O'', CHR ''0'', CHR ''1''} = {}"
proof -
  show "length (generatePartyId_PeerJS rnd) = 6"
    by (simp add: generatePartyId_PeerJS_eq)
  have idx: "nat \<lfloor>rnd i * real (length chars)\<rfloor> < length chars" if "i < 6" for i
  proof -
    from assms [OF that] have "0 \<le> rnd i" "rnd i < 1" by simp_all
    then have "rnd i * 32 < 32" "0 \<le> rnd i * 32" by simp_all
    then have "\<lfloor>rnd i * 32\<rfloor> < 32" "0 \<le> \<lfloor>rnd i * 32\<rfloor>" by (simp_all add: floor_less_iff)
    then have "nat \<lfloor>rnd i * 32\<rfloor> < 32" by linarith
    then show ?thesis by (simp only: length_chars of_nat_numeral)
  qed
  show sub: "set (generatePartyId_PeerJS rnd) \<subseteq> set chars"
    using idx by (auto simp: generatePartyId_PeerJS_eq)
  have "set chars \<inter> {CHR ''I'', CHR ''O'', CHR ''0'', CHR ''1''} = {}"
    by (simp add: chars_def)
  with sub show "set (generatePartyId_PeerJS rnd) \<inter> {CHR ''I'', CHR ''O'', CHR ''0'', CHR ''1''} = {}"
    by blast
qed

lemma joinParty_upper:
  "partyId (app_network (joinParty pid ap)) = Some (toUpperCase pid)
   \<and> RealtimeJoinChannel (toUpperCase pid) \<in> set (net_calls (joinParty pid ap))"
  by (simp add: joinParty_def Let_def broadcast_def)


subsection \<open>Joining a party\<close>

text \<open>
  C7, amended. A host that handles a \<open>join_request\<close> sent by another user (the sender
  identity of the message is not the host's own) never assigns Rock; with Paper
  unclaimed it stores the joiner under Paper and broadcasts the assignment; with Paper
  claimed and Scissors unclaimed, the same for Scissors; with both claimed it only
  broadcasts \<open>party_full\<close> with the requester as target, and the roster stays as it was.
\<close>

theorem C7_join_request:
  assumes "isHost (app_network ap)" and "fromId data \<noteq> currentUser_id ap"
    and "body data = join_request jid juser"
  shows "getNextAvailableType (app_network ap) \<noteq> Some Rock
    \<and> (map_of (players (app_network ap)) Paper = None \<longrightarrow>
       (\<exists>ap' ui. handleMessage data ap = Inr ap'
          \<and> players (app_network ap') =
              AList.update Paper \<lparr>player_id = jid, username = juser, connected = True\<rparr>
                (players (app_network ap))
          \<and> net_calls ap' = net_calls ap @
              [RealtimeBroadcast \<lparr>fromId = currentUser_id ap,
                 body = player_assigned jid Paper (players (app_network ap'))\<rparr>, ui]))
    \<and> (map_of (players (app_network ap)) Paper \<noteq> None \<and>
         map_of (players (app_network ap)) Scissors = None \<longrightarrow>
       (\<exists>ap' ui. handleMessage data ap = Inr ap'
          \<and> players (app_network ap') =
              AList.update Scissors \<lparr>player_id = jid, username = juser, connected = True\<rparr>
                (players (app_network ap))
          \<and> net_calls ap' = net_calls ap @
              [RealtimeBroadcast \<lparr>fromId = currentUser_id ap,
                 body = player_assigned jid Scissors (players (app_network ap'))\<rparr>, ui]))
    \<and> (map_of (players (app_network ap)) Paper \<noteq> None \<and>
         map_of (players (app_network ap)) Scissors \<noteq> None \<longrightarrow>
       handleMessage data ap =
         Inr (ap\<lparr>net_calls := net_calls ap @
                [RealtimeBroadcast \<lparr>fromId = currentUser_id ap, body = party_full jid\<rparr>]\<rparr>))"
  using assms
  by (auto simp: handleMessage_def getNextAvailableType_def Let_def broadcast_def
      updatePlayerList_def getPlayersArray_def)

text \<open>Instances of C7: a second user gets Paper, a fourth gets \<open>party_full\<close>.\<close>

lemma host0_facts:
  "app_network host0 =
     \<lparr>isHost = True, partyId = Some ''I'', net_localPlayerType = Some Rock,
      syncInterval = True,
      players = [(Rock, \<lparr>player_id = ''u1'', username = ''ann'', connected = True\<rparr>)],
      remoteInputs = []\<rparr>"
  "currentUser_id host0 = ''u1''"
  by (simp_all add: host0_def createParty_def Let_def gen_half app0_def updatePlayerList_def)

theorem C7_witness:
  "isHost (app_network host0) \<and> ''u2'' \<noteq> currentUser_id host0
   \<and> map_of (players (app_network host0)) Paper = None
   \<and> (\<exists>ap'. handleMessage \<lparr>fromId = ''u2'', body = join_request ''u2'' ''bob''\<rparr> host0 = Inr ap'
        \<and> map_of (players (app_network ap')) Paper =
            Some \<lparr>player_id = ''u2'', username = ''bob'', connected = True\<rparr>)
   \<and> isHost (app_network host_full) \<and> ''u4'' \<noteq> currentUser_id host_full
   \<and> handleMessage \<lparr>fromId = ''u4'', body = join_request ''u4'' ''dan''\<rparr> host_full =
        Inr (host_full\<lparr>net_calls := net_calls host_full @
                [RealtimeBroadcast \<lparr>fromId = ''u1'', body = party_full ''u4''\<rparr>]\<rparr>)"
  using C7_join_request [of host0 "\<lparr>fromId = ''u2'', body = join_request ''u2'' ''bob''\<rparr>" "''u2''" "''bob''"]
    C7_join_request [of host_full "\<lparr>fromId = ''u4'', body = join_request ''u4'' ''dan''\<rparr>" "''u4''" "''dan''"]
  by (auto simp: host0_facts host_full_def)


text \<open>
  C7 as stated fails without that condition: \<open>handleMessage\<close> ignores every message that
  carries the local identity, so a \<open>join_request\<close> with the host's own identity (a second
  tab of the same browser profile) gets no faction and no \<open>party_full\<close>, with Paper free.
\<close>

theorem C7_counterexample:
  "\<not> (\<forall>ap data jid juser.
        isHost (app_network ap) \<and> body data = join_request jid juser
        \<and> map_of (players (app_network ap)) Paper = None \<longrightarrow>
        (\<exists>ap'. handleMessage data ap = Inr ap'
           \<and> map_of (players (app_network ap')) Paper =
               Some \<lparr>player_id = jid, username = juser, connected = True\<rparr>))"
proof
  assume "\<forall>ap data jid juser.
        isHost (app_network ap) \<and> body data = join_request jid juser
        \<and> map_of (players (app_network ap)) Paper = None \<longrightarrow>
        (\<exists>ap'. handleMessage data ap = Inr ap'
           \<and> map_of (players (app_network ap')) Paper =
               Some \<lparr>player_id = jid, username = juser, connected = True\<rparr>)"
  then have "isHost (app_network host0)
        \<and> body \<lparr>fromId = ''u1'', body = join_request ''u1'' ''ann''\<rparr> = join_request ''u1'' ''ann''
        \<and> map_of (players (app_network host0)) Paper = None \<longrightarrow>
        (\<exists>ap'. handleMessage \<lparr>fromId = ''u1'', body = join_request ''u1'' ''ann''\<rparr> host0 = Inr ap'
           \<and> map_of (players (app_network ap')) Paper =
               Some \<lparr>player_id = ''u1'', username = ''ann'', connected = True\<rparr>)"
    by blast
  moreover have "handleMessage \<lparr>fromId = ''u1'', body = join_request ''u1'' ''ann''\<rparr> host0 = Inr host0"
    by (simp add: handleMessage_def host0_facts)
  ultimately show False
    by (simp add: host0_facts)
qed

subsection \<open>Remote conversions\<close>

lemma find_soldier_None:
  "find_soldier st rs i = None \<longleftrightarrow> i \<notin> (\<lambda>r. soldier_id (objs st r)) ` set rs"
  by (auto simp: find_soldier_def find_None_iff)

lemma find_soldier_Some:
  "find_soldier st rs i = Some r \<Longrightarrow> r \<in> set rs \<and> soldier_id (objs st r) = i"
  by (auto simp: find_soldier_def find_Some_iff)

lemma convertSoldier_effect:
  "objs (heap (convertSoldier r f t g)) r = (objs (heap g) r)\<lparr>isConverting := True\<rparr>
   \<and> (\<forall>x. x \<noteq> r \<longrightarrow> objs (heap (convertSoldier r f t g)) x = objs (heap g) x)
   \<and> pending (heap (convertSoldier r f t g)) =
       pending (heap g) @ [(400, FinishConversion r (mesh_scale (objs (heap g) r)) f t)]
   \<and> armies (convertSoldier r f t g) = armies g
   \<and> state (convertSoldier r f t g) = state g
   \<and> app_calls (convertSoldier r f t g) = app_calls g @ [AudioConvert]"
  by (simp add: convertSoldier_def Let_def modify_def schedule_def)

lemma fire_last_convertSoldier:
  "fire (length (pending (heap g))) (convertSoldier r f t g) =
     finishConversion r (mesh_scale (objs (heap g) r)) f t
       (g\<lparr>app_calls := app_calls g @ [AudioConvert],
          heap := (modify r (\<lambda>s. s\<lparr>isConverting := True\<rparr>) (heap g))\<lparr>pending := pending (heap g)\<rparr>\<rparr>)"
  by (simp add: fire_def convertSoldier_def Let_def schedule_def modify_def)

lemma removeSoldier_army_type:
  "army_type (snd (removeSoldier r (st, a))) = army_type a"
  by (simp add: removeSoldier_def Let_def promoteNewLeader_def split: list.splits)

lemma removeSoldier_soldier_type:
  "soldier_type (objs (fst (removeSoldier r (st, a))) x) = soldier_type (objs st x)"
  by (simp add: removeSoldier_def Let_def promoteNewLeader_def modify_def split: list.splits)

lemma finishConversion_moved:
  assumes "map_of (armies g) t = Some ta"
  shows "soldier_type (objs (heap (finishConversion r sc f t g)) r) = army_type ta"
    and "\<not> isConverting (objs (heap (finishConversion r sc f t g)) r)"
    and "x \<noteq> r \<Longrightarrow> soldier_type (objs (heap (finishConversion r sc f t g)) x) = soldier_type (objs (heap g) x)"
    and "pending (heap (finishConversion r sc f t g)) = pending (heap g)"
  using assms
  by (auto simp: finishConversion_def Let_def map_of_with_army heap_with_army modify_def
      changeType_def army_type_at_def split_def addSoldier_def removeSoldier_army_type
      removeSoldier_soldier_type removeSoldier_def promoteNewLeader_def
      split: option.splits list.splits)


lemma finishConversion_roster_same:
  assumes "map_of (armies g) t = Some ta"
  shows "roster (finishConversion r sc t t g) t = remove1 r (soldiers ta) @ [r]"
  using assms
  by (simp add: finishConversion_def Let_def roster_def map_of_with_army heap_with_army
      removeSoldier_soldiers addSoldier_def split_def)

lemma conversion_effects:
  assumes fa: "map_of (armies g) f = Some fa" and ta: "map_of (armies g) t = Some ta"
    and g1: "g1 = convertSoldier r f t g"
    and g2: "g2 = fire (length (pending (heap g))) g1"
  shows "objs (heap g1) r = (objs (heap g) r)\<lparr>isConverting := True\<rparr>
     \<and> (\<forall>x. x \<noteq> r \<longrightarrow> objs (heap g1) x = objs (heap g) x)
     \<and> armies g1 = armies g
     \<and> pending (heap g1) =
         pending (heap g) @ [(400, FinishConversion r (mesh_scale (objs (heap g) r)) f t)]
     \<and> roster g2 t = (if f = t then remove1 r (soldiers fa) @ [r] else soldiers ta @ [r])
     \<and> (f \<noteq> t \<longrightarrow> roster g2 f = remove1 r (soldiers fa))
     \<and> soldier_type (objs (heap g2) r) = army_type ta
     \<and> \<not> isConverting (objs (heap g2) r)
     \<and> soldier_id (objs (heap g2) r) = soldier_id (objs (heap g) r)
     \<and> (\<forall>x. x \<noteq> r \<longrightarrow> soldier_type (objs (heap g2) x) = soldier_type (objs (heap g) x))
     \<and> pending (heap g2) = pending (heap g)"
proof -
  define g' where "g' = g\<lparr>app_calls := app_calls g @ [AudioConvert],
          heap := (modify r (\<lambda>s. s\<lparr>isConverting := True\<rparr>) (heap g))\<lparr>pending := pending (heap g)\<rparr>\<rparr>"
  define sc where "sc = mesh_scale (objs (heap g) r)"
  have step: "g2 = finishConversion r sc f t g'"
    unfolding g2 g1 g'_def sc_def by (rule fire_last_convertSoldier)
  have fa': "map_of (armies g') f = Some fa" and ta': "map_of (armies g') t = Some ta"
    using fa ta by (simp_all add: g'_def)
  have ty': "soldier_type (objs (heap g') x) = soldier_type (objs (heap g) x)" for x
    by (simp add: g'_def modify_def)
  have id': "soldier_id (objs (heap g') x) = soldier_id (objs (heap g) x)" for x
    by (simp add: g'_def modify_def)
  have p': "pending (heap g') = pending (heap g)" by (simp add: g'_def)
  have r1: "roster g2 t = (if f = t then remove1 r (soldiers fa) @ [r] else soldiers ta @ [r])"
  proof (cases "f = t")
    case True
    with fa ta have "fa = ta" by simp
    with True show ?thesis
      unfolding step using finishConversion_roster_same [OF ta', of r sc] by simp
  next
    case False
    then show ?thesis
      unfolding step using finishConversion_roster(1) [OF False fa' ta', of r sc] by simp
  qed
  have r2: "f \<noteq> t \<longrightarrow> roster g2 f = remove1 r (soldiers fa)"
    unfolding step using finishConversion_roster(2) [OF _ fa' ta', of r sc] by simp
  have m: "soldier_type (objs (heap g2) r) = army_type ta"
    "\<not> isConverting (objs (heap g2) r)"
    "pending (heap g2) = pending (heap g)"
    unfolding step using finishConversion_moved(1,2,4) [OF ta', of r sc f] by (simp_all add: p')
  have o: "\<forall>x. x \<noteq> r \<longrightarrow> soldier_type (objs (heap g2) x) = soldier_type (objs (heap g) x)"
    unfolding step using finishConversion_moved(3) [OF ta', of _ r sc f] by (simp add: ty')
  have i: "soldier_id (objs (heap g2) r) = soldier_id (objs (heap g) r)"
    unfolding step by (simp add: finishConversion_id id')
  from convertSoldier_effect [of r f t g] r1 r2 m o i show ?thesis
    unfolding g1 by simp
qed


text \<open>
  C9. \<open>handleRemoteConversion\<close> returns the application unchanged when there is no
  game, when either army is missing, when no soldier of the from-army has the id, and
  when the soldier found is converting. Otherwise it replaces the game by
  \<open>convertSoldier\<close> of the soldier found: that soldier, which is in the from-army and has
  the id of the message, is flagged as converting, no other soldier and no roster
  changes, and the callback is scheduled last; when that callback has run, the to-army
  roster ends with the soldier, the from-army roster has lost it, its type is the
  to-army's, it is no longer converting, its id is the one of the message, and no other
  soldier has changed type. The host's \<open>handleCollision\<close> on the same two armies, when the
  to-army wins, gives the same game. A conversion message from another user never makes
  \<open>handleMessage\<close> throw.
\<close>

theorem C9_handleRemoteConversion:
  "(app_game ap = None \<longrightarrow> handleRemoteConversion sid f t ap = ap)
   \<and> (\<forall>g. app_game ap = Some g \<longrightarrow>
        (map_of (armies g) f = None \<or> map_of (armies g) t = None \<longrightarrow>
           handleRemoteConversion sid f t ap = ap)
      \<and> (\<forall>fa. map_of (armies g) f = Some fa \<longrightarrow>
            (sid \<notin> (\<lambda>r. soldier_id (objs (heap g) r)) ` set (soldiers fa) \<longrightarrow>
               handleRemoteConversion sid f t ap = ap)
          \<and> (\<forall>r. find_soldier (heap g) (soldiers fa) sid = Some r \<longrightarrow>
                (isConverting (objs (heap g) r) \<longrightarrow> handleRemoteConversion sid f t ap = ap)
              \<and> (\<forall>ta. \<not> isConverting (objs (heap g) r) \<and> map_of (armies g) t = Some ta \<longrightarrow>
                   (\<exists>g1 g2.
                      handleRemoteConversion sid f t ap = ap\<lparr>app_game := Some g1\<rparr>
                    \<and> g1 = convertSoldier r f t g
                    \<and> g2 = fire (length (pending (heap g))) g1
                    \<and> r \<in> set (soldiers fa) \<and> soldier_id (objs (heap g) r) = sid
                    \<and> objs (heap g1) r = (objs (heap g) r)\<lparr>isConverting := True\<rparr>
                    \<and> (\<forall>x. x \<noteq> r \<longrightarrow> objs (heap g1) x = objs (heap g) x)
                    \<and> armies g1 = armies g
                    \<and> pending (heap g1) =
                        pending (heap g) @
                          [(400, FinishConversion r (mesh_scale (objs (heap g) r)) f t)]
                    \<and> roster g2 t =
                        (if f = t then remove1 r (soldiers fa) @ [r] else soldiers ta @ [r])
                    \<and> (f \<noteq> t \<longrightarrow> roster g2 f = remove1 r (soldiers fa))
                    \<and> soldier_type (objs (heap g2) r) = army_type ta
                    \<and> \<not> isConverting (objs (heap g2) r)
                    \<and> soldier_id (objs (heap g2) r) = sid
                    \<and> (\<forall>x. x \<noteq> r \<longrightarrow>
                          soldier_type (objs (heap g2) x) = soldier_type (objs (heap g) x))
                    \<and> pending (heap g2) = pending (heap g)
                    \<and> (\<forall>s. \<not> isInvincible fa \<and> \<not> isInvincible ta
                          \<and> getRPSWinner (army_type ta) (army_type fa) = Some (army_type ta) \<longrightarrow>
                          handleCollision s r t f g = g1)
                    \<and> (\<forall>s. \<not> isInvincible fa \<and> \<not> isInvincible ta
                          \<and> getRPSWinner (army_type fa) (army_type ta) = Some (army_type ta)
                          \<and> army_type fa \<noteq> army_type ta \<longrightarrow>
                          handleCollision r s f t g = g1))))))
   \<and> (src \<noteq> currentUser_id ap \<longrightarrow>
        handleMessage \<lparr>fromId = src, body = conversion sid f t\<rparr> ap =
          Inr (handleRemoteConversion sid f t ap))"
proof -
  have noop: "app_game ap = None \<longrightarrow> handleRemoteConversion sid f t ap = ap"
    by (simp add: handleRemoteConversion_def)
  have msg: "src \<noteq> currentUser_id ap \<longrightarrow>
        handleMessage \<lparr>fromId = src, body = conversion sid f t\<rparr> ap =
          Inr (handleRemoteConversion sid f t ap)"
    by (simp add: handleMessage_def)
  have guards: "(map_of (armies g) f = None \<or> map_of (armies g) t = None \<longrightarrow>
           handleRemoteConversion sid f t ap = ap)
      \<and> (\<forall>fa. map_of (armies g) f = Some fa \<longrightarrow>
            (sid \<notin> (\<lambda>r. soldier_id (objs (heap g) r)) ` set (soldiers fa) \<longrightarrow>
               handleRemoteConversion sid f t ap = ap)
          \<and> (\<forall>r. find_soldier (heap g) (soldiers fa) sid = Some r \<longrightarrow>
                (isConverting (objs (heap g) r) \<longrightarrow> handleRemoteConversion sid f t ap = ap)))"
    if "app_game ap = Some g" for g
    using that
    by (auto simp: handleRemoteConversion_def find_soldier_None [symmetric] split: option.splits)
  have applied: "\<exists>g1 g2.
                      handleRemoteConversion sid f t ap = ap\<lparr>app_game := Some g1\<rparr>
                    \<and> g1 = convertSoldier r f t g
                    \<and> g2 = fire (length (pending (heap g))) g1
                    \<and> r \<in> set (soldiers fa) \<and> soldier_id (objs (heap g) r) = sid
                    \<and> objs (heap g1) r = (objs (heap g) r)\<lparr>isConverting := True\<rparr>
                    \<and> (\<forall>x. x \<noteq> r \<longrightarrow> objs (heap g1) x = objs (heap g) x)
                    \<and> armies g1 = armies g
                    \<and> pending (heap g1) =
                        pending (heap g) @
                          [(400, FinishConversion r (mesh_scale (objs (heap g) r)) f t)]
                    \<and> roster g2 t =
                        (if f = t then remove1 r (soldiers fa) @ [r] else soldiers ta @ [r])
                    \<and> (f \<noteq> t \<longrightarrow> roster g2 f = remove1 r (soldiers fa))
                    \<and> soldier_type (objs (heap g2) r) = army_type ta
                    \<and> \<not> isConverting (objs (heap g2) r)
                    \<and> soldier_id (objs (heap g2) r) = sid
                    \<and> (\<forall>x. x \<noteq> r \<longrightarrow>
                          soldier_type (objs (heap g2) x) = soldier_type (objs (heap g) x))
                    \<and> pending (heap g2) = pending (heap g)
                    \<and> (\<forall>s. \<not> isInvincible fa \<and> \<not> isInvincible ta
                          \<and> getRPSWinner (army_type ta) (army_type fa) = Some (army_type ta) \<longrightarrow>
                          handleCollision s r t f g = g1)
                    \<and> (\<forall>s. \<not> isInvincible fa \<and> \<not> isInvincible ta
                          \<and> getRPSWinner (army_type fa) (army_type ta) = Some (army_type ta)
                          \<and> army_type fa \<noteq> army_type ta \<longrightarrow>
                          handleCollision r s f t g = g1)"
    if g: "app_game ap = Some g" and fa: "map_of (armies g) f = Some fa"
      and r: "find_soldier (heap g) (soldiers fa) sid = Some r"
      and c: "\<not> isConverting (objs (heap g) r)" and ta: "map_of (armies g) t = Some ta"
    for g fa r ta
  proof -
    have h: "handleRemoteConversion sid f t ap = ap\<lparr>app_game := Some (convertSoldier r f t g)\<rparr>"
      using g fa r c ta by (simp add: handleRemoteConversion_def)
    have host1: "\<forall>s. \<not> isInvincible fa \<and> \<not> isInvincible ta
                          \<and> getRPSWinner (army_type ta) (army_type fa) = Some (army_type ta) \<longrightarrow>
                          handleCollision s r t f g = convertSoldier r f t g"
      using fa ta by (simp add: handleCollision_def Let_def)
    have host2: "\<forall>s. \<not> isInvincible fa \<and> \<not> isInvincible ta
                          \<and> getRPSWinner (army_type fa) (army_type ta) = Some (army_type ta)
                          \<and> army_type fa \<noteq> army_type ta \<longrightarrow>
                          handleCollision r s f t g = convertSoldier r f t g"
      using fa ta by (auto simp: handleCollision_def Let_def)
    from conversion_effects [OF fa ta refl refl, of r] find_soldier_Some [OF r] h host1 host2
    show ?thesis by simp
  qed
  from noop msg guards applied show ?thesis by blast
qed

text \<open>
  Instances of C9: an unknown id is ignored; the id of the Scissors leader starts its
  conversion, and after the callback the soldier is a Rock soldier in the Rock roster.
\<close>

theorem C9_witness:
  "app_game client0 = Some game0
   \<and> handleRemoteConversion ''nobody'' Scissors Rock client0 = client0
   \<and> handleMessage \<lparr>fromId = ''u2'', body = conversion ''nobody'' Scissors Rock\<rparr> client0 = Inr client0
   \<and> find_soldier (heap game0) [10, 11, 12, 13, 14] ''scissors_LEADER'' = Some 10
   \<and> \<not> isConverting (objs (heap game0) 10)
   \<and> handleRemoteConversion ''scissors_LEADER'' Scissors Rock client0 =
       client0\<lparr>app_game := Some (convertSoldier 10 Scissors Rock game0)\<rparr>
   \<and> isConverting (objs (heap (convertSoldier 10 Scissors Rock game0)) 10)
   \<and> roster (fire 0 (convertSoldier 10 Scissors Rock game0)) Rock = [0, 1, 2, 3, 4, 10]
   \<and> roster (fire 0 (convertSoldier 10 Scissors Rock game0)) Scissors = [11, 12, 13, 14]
   \<and> soldier_type (objs (heap (fire 0 (convertSoldier 10 Scissors Rock game0))) 10) = Rock
   \<and> soldier_id (objs (heap (fire 0 (convertSoldier 10 Scissors Rock game0))) 10) = ''scissors_LEADER''"
proof -
  define ta where "ta = snd (new_Army Rock True store0)"
  define fa where "fa = snd (new_Army Scissors False
      (fst (new_Army Paper False (fst (new_Army Rock True store0)))))"
  have fa: "map_of (armies game0) Scissors = Some fa"
    and ta: "map_of (armies game0) Rock = Some ta"
    by (simp_all add: fa_def ta_def game0_armies)
  have sfa: "soldiers fa = [10, 11, 12, 13, 14]" and sta: "soldiers ta = [0, 1, 2, 3, 4]"
    and tta: "army_type ta = Rock"
    by (simp_all add: fa_def ta_def new_Army_eq store0_def)
  have nb: "''nobody'' \<notin> (\<lambda>r. soldier_id (objs (heap game0) r)) ` set (soldiers fa)"
    using game0_find(3) by (simp add: sfa find_soldier_None)
  have fs: "find_soldier (heap game0) (soldiers fa) ''scissors_LEADER'' = Some 10"
    by (simp only: sfa game0_find(2))
  have p: "pending (heap game0) = []" by (rule game0_armies(3))
  from C9_handleRemoteConversion [of client0 "''nobody''" Scissors Rock "''u2''"] client0_facts fa nb
  have 1: "handleRemoteConversion ''nobody'' Scissors Rock client0 = client0"
    and 2: "handleMessage \<lparr>fromId = ''u2'', body = conversion ''nobody'' Scissors Rock\<rparr> client0
        = Inr client0"
    by simp_all
  from C9_handleRemoteConversion [of client0 "''scissors_LEADER''" Scissors Rock "''u2''"] client0_facts(2)
  have "\<forall>fa. map_of (armies game0) Scissors = Some fa \<longrightarrow>
          (\<forall>r. find_soldier (heap game0) (soldiers fa) ''scissors_LEADER'' = Some r \<longrightarrow>
              (\<forall>ta. \<not> isConverting (objs (heap game0) r) \<and> map_of (armies game0) Rock = Some ta \<longrightarrow>
                 handleRemoteConversion ''scissors_LEADER'' Scissors Rock client0 =
                   client0\<lparr>app_game := Some (convertSoldier r Scissors Rock game0)\<rparr>
               \<and> isConverting (objs (heap (convertSoldier r Scissors Rock game0)) r)
               \<and> roster (fire (length (pending (heap game0))) (convertSoldier r Scissors Rock game0)) Rock
                    = soldiers ta @ [r]
               \<and> roster (fire (length (pending (heap game0))) (convertSoldier r Scissors Rock game0)) Scissors
                    = remove1 r (soldiers fa)
               \<and> soldier_type (objs (heap (fire (length (pending (heap game0)))
                    (convertSoldier r Scissors Rock game0))) r) = army_type ta
               \<and> soldier_id (objs (heap (fire (length (pending (heap game0)))
                    (convertSoldier r Scissors Rock game0))) r) = ''scissors_LEADER''))"
    by simp
  with fa fs ta game0_soldier0(3)
  have 3: "handleRemoteConversion ''scissors_LEADER'' Scissors Rock client0 =
                   client0\<lparr>app_game := Some (convertSoldier 10 Scissors Rock game0)\<rparr>
               \<and> isConverting (objs (heap (convertSoldier 10 Scissors Rock game0)) 10)
               \<and> roster (fire (length (pending (heap game0))) (convertSoldier 10 Scissors Rock game0)) Rock
                    = soldiers ta @ [10]
               \<and> roster (fire (length (pending (heap game0))) (convertSoldier 10 Scissors Rock game0)) Scissors
                    = remove1 10 (soldiers fa)
               \<and> soldier_type (objs (heap (fire (length (pending (heap game0)))
                    (convertSoldier 10 Scissors Rock game0))) 10) = army_type ta
               \<and> soldier_id (objs (heap (fire (length (pending (heap game0)))
                    (convertSoldier 10 Scissors Rock game0))) 10) = ''scissors_LEADER''"
    by blast
  from 1 2 3 show ?thesis
    by (simp add: client0_facts game0_find game0_soldier0 p sfa sta tta)
qed


subsection \<open>State synchronisation\<close>

lemma lerp_soldier_id: "soldier_id (lerp_soldier d s) = soldier_id s"
  by (simp add: lerp_soldier_def)

lemma sync_soldier_id:
  "soldier_id (objs (sync_soldier rs d st) r) = soldier_id (objs st r)"
  by (simp add: sync_soldier_def modify_def lerp_soldier_id split: option.splits)

lemma find_soldier_ids:
  "(\<And>r. soldier_id (objs st' r) = soldier_id (objs st r)) \<Longrightarrow>
     find_soldier st' rs i = find_soldier st rs i"
  by (simp add: find_soldier_def)

lemma sync_soldier_objs:
  "objs (sync_soldier rs d st) r =
     (if find_soldier st rs (sd_id d) = Some r then lerp_soldier d (objs st r) else objs st r)"
  by (auto simp: sync_soldier_def modify_def split: option.splits)

lemma fold_sync_soldier_id:
  "soldier_id (objs (fold (sync_soldier rs) ds st) r) = soldier_id (objs st r)"
  by (induction ds arbitrary: st) (simp_all add: sync_soldier_id)

lemma fold_sync_soldier_objs:
  "objs (fold (sync_soldier rs) ds st) r =
     fold lerp_soldier (filter (\<lambda>e. find_soldier st rs (sd_id e) = Some r) ds) (objs st r)"
proof (induction ds arbitrary: st)
  case Nil
  show ?case by simp
next
  case (Cons d ds)
  have same: "find_soldier (sync_soldier rs d st) rs i = find_soldier st rs i" for i
    by (rule find_soldier_ids) (rule sync_soldier_id)
  show ?case
    by (simp add: Cons.IH same sync_soldier_objs)
qed

lemma sync_army_state: "state (sync_army e g) = state g"
  by (cases e) (simp add: sync_army_def split: option.splits)

lemma sync_army_id:
  "soldier_id (objs (heap (sync_army e g)) r) = soldier_id (objs (heap g) r)"
  by (cases e) (simp add: sync_army_def fold_sync_soldier_id split: option.splits)

lemma sync_army_roster:
  "map_option soldiers (map_of (armies (sync_army e g)) t) = map_option soldiers (map_of (armies g) t)"
  by (cases e) (auto simp: sync_army_def update_conv' split: option.splits)

lemma sync_army_objs:
  "objs (heap (sync_army e g)) r = fold lerp_soldier (matching g [e] r) (objs (heap g) r)"
  by (cases e) (simp add: sync_army_def matching_def fold_sync_soldier_objs split: option.splits)

lemma matching_cong:
  assumes "\<And>t. map_option soldiers (map_of (armies g') t) = map_option soldiers (map_of (armies g) t)"
    and "\<And>r. soldier_id (objs (heap g') r) = soldier_id (objs (heap g) r)"
  shows "matching g' data r = matching g data r"
proof -
  have eq: "(case map_of (armies g') t of None \<Rightarrow> []
          | Some a \<Rightarrow> filter (\<lambda>e. find_soldier (heap g') (soldiers a) (sd_id e) = Some r) ds) =
        (case map_of (armies g) t of None \<Rightarrow> []
          | Some a \<Rightarrow> filter (\<lambda>e. find_soldier (heap g) (soldiers a) (sd_id e) = Some r) ds)" for t ds
    using assms(1) [of t] find_soldier_ids [of "heap g'" "heap g", OF assms(2)]
    by (auto split: option.splits)
  show ?thesis by (simp add: matching_def split_def eq)
qed

lemma matching_Cons: "matching g (e # data) r = matching g [e] r @ matching g data r"
  by (simp add: matching_def)

lemma fold_sync_army_inv:
  "state (fold sync_army data g) = state g
   \<and> (\<forall>r. soldier_id (objs (heap (fold sync_army data g)) r) = soldier_id (objs (heap g) r))
   \<and> (\<forall>t. map_option soldiers (map_of (armies (fold sync_army data g)) t) =
           map_option soldiers (map_of (armies g) t))"
  by (induction data arbitrary: g) (simp_all add: sync_army_state sync_army_id sync_army_roster)

lemma fold_sync_army_objs:
  "objs (heap (fold sync_army data g)) r = fold lerp_soldier (matching g data r) (objs (heap g) r)"
proof (induction data arbitrary: g)
  case Nil
  show ?case by (simp add: matching_def)
next
  case (Cons e data)
  have "matching (sync_army e g) data r = matching g data r"
    by (rule matching_cong) (simp_all add: sync_army_roster sync_army_id)
  then show ?case
    by (simp add: Cons.IH sync_army_objs matching_Cons [of g e data])
qed

lemma matching_fold:
  "matching (fold sync_army data' g) data r = matching g data r"
  by (rule matching_cong) (simp_all add: fold_sync_army_inv)

lemma lerp_x: "pos_x (lerp_soldier d s) = (pos_x s + sd_x d) / 2"
  and lerp_z: "pos_z (lerp_soldier d s) = (pos_z s + sd_z d) / 2"
  by (simp_all add: lerp_soldier_def lerpSpeed_def field_simps)

text \<open>
  C8, amended. On a peer that is not host, in the Playing phase, a \<open>game_state\<close>
  message applies to each soldier the interpolation steps of the entries that match
  it: none leaves the soldier where it is; exactly one moves \<open>x\<close> and \<open>z\<close> towards the
  listed values by the factor \<open>lerpSpeed\<close>, strictly between 0 and 1, which halves the
  distance to the listed position and stays between the old and the listed value. The
  same message applied a second time moves the soldier again: a quarter of the
  distance is left, and the soldier has moved one and a half times as far as after one
  application.
\<close>

theorem C8_game_state_interpolation:
  assumes "\<not> isHost (app_network ap)" and "app_game ap = Some g" and "state g = PLAYING"
  shows "\<exists>g1 g2.
      app_game (handleGameStateSync data ap) = Some g1
    \<and> app_game (handleGameStateSync data (handleGameStateSync data ap)) = Some g2
    \<and> 0 < lerpSpeed \<and> lerpSpeed < 1
    \<and> objs (heap g1) r = fold lerp_soldier (matching g data r) (objs (heap g) r)
    \<and> (matching g data r = [] \<longrightarrow> objs (heap g1) r = objs (heap g) r)
    \<and> (\<forall>d. matching g data r = [d] \<longrightarrow>
          pos_x (objs (heap g1) r) =
            pos_x (objs (heap g) r) + (sd_x d - pos_x (objs (heap g) r)) * lerpSpeed
        \<and> pos_z (objs (heap g1) r) =
            pos_z (objs (heap g) r) + (sd_z d - pos_z (objs (heap g) r)) * lerpSpeed
        \<and> \<bar>sd_x d - pos_x (objs (heap g1) r)\<bar> = \<bar>sd_x d - pos_x (objs (heap g) r)\<bar> / 2
        \<and> \<bar>sd_z d - pos_z (objs (heap g1) r)\<bar> = \<bar>sd_z d - pos_z (objs (heap g) r)\<bar> / 2
        \<and> min (pos_x (objs (heap g) r)) (sd_x d) \<le> pos_x (objs (heap g1) r)
        \<and> pos_x (objs (heap g1) r) \<le> max (pos_x (objs (heap g) r)) (sd_x d)
        \<and> min (pos_z (objs (heap g) r)) (sd_z d) \<le> pos_z (objs (heap g1) r)
        \<and> pos_z (objs (heap g1) r) \<le> max (pos_z (objs (heap g) r)) (sd_z d)
        \<and> \<bar>sd_x d - pos_x (objs (heap g2) r)\<bar> = \<bar>sd_x d - pos_x (objs (heap g) r)\<bar> / 4
        \<and> \<bar>sd_z d - pos_z (objs (heap g2) r)\<bar> = \<bar>sd_z d - pos_z (objs (heap g) r)\<bar> / 4
        \<and> \<bar>pos_x (objs (heap g2) r) - pos_x (objs (heap g) r)\<bar> =
            3 / 2 * \<bar>pos_x (objs (heap g1) r) - pos_x (objs (heap g) r)\<bar>)"
proof -
  let ?g1 = "fold sync_army data g"
  let ?g2 = "fold sync_army data ?g1"
  have st1: "state ?g1 = PLAYING" using assms(3) by (simp add: fold_sync_army_inv)
  have a1: "app_game (handleGameStateSync data ap) = Some ?g1"
    using assms by (simp add: handleGameStateSync_def)
  have "handleGameStateSync data ap = ap\<lparr>app_game := Some ?g1\<rparr>"
    using assms by (simp add: handleGameStateSync_def)
  then have a2: "app_game (handleGameStateSync data (handleGameStateSync data ap)) = Some ?g2"
    using assms(1) st1 by (simp add: handleGameStateSync_def)
  have o1: "objs (heap ?g1) r = fold lerp_soldier (matching g data r) (objs (heap g) r)"
    by (rule fold_sync_army_objs)
  have o2: "objs (heap ?g2) r = fold lerp_soldier (matching g data r) (objs (heap ?g1) r)"
    by (simp add: fold_sync_army_objs [of data ?g1] matching_fold)
  have arith: "x1 = (x + s) / 2 \<Longrightarrow> x2 = (x1 + s) / 2 \<Longrightarrow>
      x1 = x + (s - x) * lerpSpeed \<and> \<bar>s - x1\<bar> = \<bar>s - x\<bar> / 2 \<and> min x s \<le> x1 \<and> x1 \<le> max x s
      \<and> \<bar>s - x2\<bar> = \<bar>s - x\<bar> / 4 \<and> \<bar>x2 - x\<bar> = 3 / 2 * \<bar>x1 - x\<bar>" for x x1 x2 s :: real
    by (auto simp: lerpSpeed_def field_simps abs_if min_def max_def)
  have big: "pos_x (objs (heap ?g1) r) =
            pos_x (objs (heap g) r) + (sd_x d - pos_x (objs (heap g) r)) * lerpSpeed
        \<and> pos_z (objs (heap ?g1) r) =
            pos_z (objs (heap g) r) + (sd_z d - pos_z (objs (heap g) r)) * lerpSpeed
        \<and> \<bar>sd_x d - pos_x (objs (heap ?g1) r)\<bar> = \<bar>sd_x d - pos_x (objs (heap g) r)\<bar> / 2
        \<and> \<bar>sd_z d - pos_z (objs (heap ?g1) r)\<bar> = \<bar>sd_z d - pos_z (objs (heap g) r)\<bar> / 2
        \<and> min (pos_x (objs (heap g) r)) (sd_x d) \<le> pos_x (objs (heap ?g1) r)
        \<and> pos_x (objs (heap ?g1) r) \<le> max (pos_x (objs (heap g) r)) (sd_x d)
        \<and> min (pos_z (objs (heap g) r)) (sd_z d) \<le> pos_z (objs (heap ?g1) r)
        \<and> pos_z (objs (heap ?g1) r) \<le> max (pos_z (objs (heap g) r)) (sd_z d)
        \<and> \<bar>sd_x d - pos_x (objs (heap ?g2) r)\<bar> = \<bar>sd_x d - pos_x (objs (heap g) r)\<bar> / 4
        \<and> \<bar>sd_z d - pos_z (objs (heap ?g2) r)\<bar> = \<bar>sd_z d - pos_z (objs (heap g) r)\<bar> / 4
        \<and> \<bar>pos_x (objs (heap ?g2) r) - pos_x (objs (heap g) r)\<bar> =
            3 / 2 * \<bar>pos_x (objs (heap ?g1) r) - pos_x (objs (heap g) r)\<bar>"
    if m: "matching g data r = [d]" for d
  proof -
    have x1: "pos_x (objs (heap ?g1) r) = (pos_x (objs (heap g) r) + sd_x d) / 2"
      and z1: "pos_z (objs (heap ?g1) r) = (pos_z (objs (heap g) r) + sd_z d) / 2"
      by (simp_all add: o1 m lerp_x lerp_z)
    have x2: "pos_x (objs (heap ?g2) r) = (pos_x (objs (heap ?g1) r) + sd_x d) / 2"
      and z2: "pos_z (objs (heap ?g2) r) = (pos_z (objs (heap ?g1) r) + sd_z d) / 2"
      by (simp_all add: o2 m lerp_x lerp_z)
    from arith [OF x1 x2] arith [OF z1 z2] show ?thesis by blast
  qed
  have l: "0 < lerpSpeed \<and> lerpSpeed < 1" by (simp add: lerpSpeed_def)
  have none: "matching g data r = [] \<longrightarrow> objs (heap ?g1) r = objs (heap g) r"
    by (simp add: o1)
  from a1 a2 l o1 none big show ?thesis by blast
qed


text \<open>An instance of C8 on the Rock leader.\<close>

theorem C8_witness:
  "\<not> isHost (app_network client0) \<and> app_game client0 = Some game0 \<and> state game0 = PLAYING
   \<and> matching game0 msg0 0 = [\<lparr>sd_id = ''rock_LEADER'', sd_x = 1, sd_z = 0, sd_isLeader = True\<rparr>]
   \<and> pos_x (objs (heap game0) 0) = 0
   \<and> (\<exists>g1 g2. app_game (handleGameStateSync msg0 client0) = Some g1
        \<and> app_game (handleGameStateSync msg0 (handleGameStateSync msg0 client0)) = Some g2
        \<and> pos_x (objs (heap g1) 0) = 1 / 2
        \<and> \<bar>1 - pos_x (objs (heap g2) 0)\<bar> = 1 / 4)"
  using C8_game_state_interpolation [of client0 game0 msg0 0]
  by (simp add: client0_facts game0_state matching0 game0_soldier0 lerpSpeed_def) blast

text \<open>
  C8 as stated fails: the second application of the same message moves the Rock leader
  from \<open>1/2\<close> to \<open>3/4\<close>, farther from its first position than one application did.
\<close>

theorem C8_counterexample:
  "\<not> \<bar>client_x (handleGameStateSync msg0 (handleGameStateSync msg0 client0)) 0 - client_x client0 0\<bar>
      \<le> \<bar>client_x (handleGameStateSync msg0 client0) 0 - client_x client0 0\<bar>"
proof -
  let ?g1 = "fold sync_army msg0 game0"
  let ?g2 = "fold sync_army msg0 ?g1"
  have h1: "handleGameStateSync msg0 client0 = client0\<lparr>app_game := Some ?g1\<rparr>"
    by (simp add: handleGameStateSync_def client0_facts game0_state)
  have h2: "handleGameStateSync msg0 (client0\<lparr>app_game := Some ?g1\<rparr>) = client0\<lparr>app_game := Some ?g2\<rparr>"
    by (simp add: handleGameStateSync_def client0_facts game0_state fold_sync_army_inv)
  have x1: "pos_x (objs (heap ?g1) 0) = 1 / 2"
    by (simp add: fold_sync_army_objs matching0 lerp_x game0_soldier0)
  have x2: "pos_x (objs (heap ?g2) 0) = 3 / 4"
    by (simp add: fold_sync_army_objs [of msg0 ?g1] matching_fold matching0 lerp_x x1)
  show ?thesis
    by (simp add: h1 h2 client_x_def client0_facts game0_soldier0 x1 x2)
qed


end
